theory Spec2Isabelle
  imports Main
begin

section \<open>Python string primitives used by the converter\<close>

text \<open>
  The converter (\<^verbatim>\<open>AwrONE_html_to_excel.py\<close>) works on Python \<^verbatim>\<open>str\<close> values. A
  \<^typ>\<open>char\<close> stands for one code point below 256; text with code points beyond that
  range is outside this development. Within the range, the decimal digits of
  \<^verbatim>\<open>int()\<close>, \<^verbatim>\<open>float()\<close> and the regular expression class \<^verbatim>\<open>\d\<close> are the ten ASCII
  digits. \<open>is_space\<close> is the white space of \<^verbatim>\<open>str.strip()\<close> (\<^verbatim>\<open>str.isspace\<close>);
  \<open>is_num_space\<close> is the white space \<^verbatim>\<open>int()\<close> and \<^verbatim>\<open>float()\<close> ignore around a
  number, which leaves out the four separators \<^verbatim>\<open>\x1c\<close> to \<^verbatim>\<open>\x1f\<close>.
\<close>

definition is_digit :: "char \<Rightarrow> bool" where
  "is_digit c = (c \<in> set ''0123456789'')"

definition is_space :: "char \<Rightarrow> bool" where
  "is_space c = (c \<in> set [CHR 0x09, CHR 0x0A, CHR 0x0B, CHR 0x0C, CHR 0x0D,
                            CHR 0x1C, CHR 0x1D, CHR 0x1E, CHR 0x1F, CHR '' '',
                            CHR 0x85, CHR 0xA0])"

definition is_num_space :: "char \<Rightarrow> bool" where
  "is_num_space c = (c \<in> set [CHR 0x09, CHR 0x0A, CHR 0x0B, CHR 0x0C, CHR 0x0D, CHR '' '',
                                CHR 0x85, CHR 0xA0])"

text \<open>\<^verbatim>\<open>s.lstrip(chars)\<close>, \<^verbatim>\<open>s.rstrip(chars)\<close>, \<^verbatim>\<open>s.strip(chars)\<close>; the character set is a predicate.\<close>

definition py_lstrip :: "(char \<Rightarrow> bool) \<Rightarrow> string \<Rightarrow> string" where
  "py_lstrip P s = dropWhile P s"

definition py_rstrip :: "(char \<Rightarrow> bool) \<Rightarrow> string \<Rightarrow> string" where
  "py_rstrip P s = rev (dropWhile P (rev s))"

definition py_strip :: "(char \<Rightarrow> bool) \<Rightarrow> string \<Rightarrow> string" where
  "py_strip P s = py_rstrip P (py_lstrip P s)"

text \<open>
  \<^verbatim>\<open>s.split(sep)\<close> for a one-character separator and \<^verbatim>\<open>re.split('[...]', s)\<close> for a
  character class: the text is cut at every separator character, empty pieces are kept,
  and the empty text gives one empty piece.
\<close>

fun split_on :: "(char \<Rightarrow> bool) \<Rightarrow> string \<Rightarrow> string list" where
  "split_on P [] = [[]]"
| "split_on P (c # cs) =
     (if P c then [] # split_on P cs
      else (case split_on P cs of w # ws \<Rightarrow> (c # w) # ws | [] \<Rightarrow> [[c]]))"

text \<open>\<^verbatim>\<open>s.replace(old, new)\<close> for a one-character \<^verbatim>\<open>old\<close>.\<close>

fun py_replace :: "char \<Rightarrow> string \<Rightarrow> string \<Rightarrow> string" where
  "py_replace old new [] = []"
| "py_replace old new (c # cs) =
     (if c = old then new @ py_replace old new cs else c # py_replace old new cs)"

text \<open>\<^verbatim>\<open>str.lower()\<close> on code points below 256.\<close>

definition py_lower_char :: "char \<Rightarrow> char" where
  "py_lower_char c =
     (let n = (of_char c :: nat) in
      if (65 \<le> n \<and> n \<le> 90) \<or> (192 \<le> n \<and> n \<le> 214) \<or> (216 \<le> n \<and> n \<le> 222)
      then char_of (n + 32) else c)"

definition py_lower :: "string \<Rightarrow> string" where
  "py_lower s = map py_lower_char s"

text \<open>\<^verbatim>\<open>str(n)\<close> for a non-negative integer: its decimal digits.\<close>

fun py_str :: "nat \<Rightarrow> string" where
  "py_str n =
     (if n < 10 then [''0123456789'' ! n]
      else py_str (n div 10) @ [''0123456789'' ! (n mod 10)])"

declare py_str.simps [simp del]

text \<open>
  The digit part of Python's numeric literals in strings, \<^verbatim>\<open>digit (["_"] digit)*\<close>:
  \<open>digitpart s\<close> is the text left after the longest digit part at the start of \<open>s\<close>,
  or \<open>None\<close> when \<open>s\<close> does not start with a digit.
\<close>

fun digits_rest :: "string \<Rightarrow> string" where
  "digits_rest [] = []"
| "digits_rest [a] = (if is_digit a then [] else [a])"
| "digits_rest (a # b # cs) =
     (if is_digit a then digits_rest (b # cs)
      else if a = CHR ''_'' \<and> is_digit b then digits_rest (b # cs)
      else a # b # cs)"

definition digitpart :: "string \<Rightarrow> string option" where
  "digitpart s =
     (case s of [] \<Rightarrow> None | c # cs \<Rightarrow> if is_digit c then Some (digits_rest cs) else None)"

definition digits_value :: "string \<Rightarrow> nat" where
  "digits_value ds = foldl (\<lambda>a c. 10 * a + (of_char c - 48)) 0 ds"

text \<open>
  \<^verbatim>\<open>int(s)\<close> in base 10: white space around the text is ignored, one sign may come
  first, the rest is one digit part; more than 4300 digits are refused (CPython's
  default limit on the length of integer strings). \<open>None\<close> is \<^verbatim>\<open>ValueError\<close>.
\<close>

definition py_int :: "string \<Rightarrow> int option" where
  "py_int s =
     (let t = py_strip is_num_space s;
          neg = (t \<noteq> [] \<and> hd t = CHR ''-'');
          body = (if t \<noteq> [] \<and> (hd t = CHR ''-'' \<or> hd t = CHR ''+'') then tl t else t);
          ds = filter is_digit body
      in if digitpart body = Some [] \<and> length ds \<le> 4300
         then Some (if neg then - int (digits_value ds) else int (digits_value ds))
         else None)"

section \<open>Configuration: FORMAT rules\<close>

text \<open>\<^verbatim>\<open>Constants.MAX_EXCEL_ROWS\<close>.\<close>

definition MAX_EXCEL_ROWS :: nat where
  "MAX_EXCEL_ROWS = 65535"

text \<open>One entry of \<^verbatim>\<open>ini_format_config[sheet]\<close>: \<^verbatim>\<open>[row1, col1, row2, col2, format_str]\<close>.\<close>

type_synonym format_rule = "int \<times> int \<times> int \<times> int \<times> string"

text \<open>
  \<^verbatim>\<open>_parse_excel_cell_range\<close>: the loop over \<^verbatim>\<open>range_str.split('/')\<close>, with
  \<^verbatim>\<open>result\<close> as accumulator. \<^verbatim>\<open>map(int, parts)\<close> raises on the first token that
  \<^verbatim>\<open>int()\<close> refuses, and the \<^verbatim>\<open>except ValueError\<close> leaves \<^verbatim>\<open>result\<close> as it was.
\<close>

fun parse_ranges_loop :: "string \<Rightarrow> string list \<Rightarrow> format_rule list \<Rightarrow> format_rule list" where
  "parse_ranges_loop format_str [] result = result"
| "parse_ranges_loop format_str (range_part # ranges) result =
     (let range_part' = py_strip is_space range_part;
          parts = split_on (\<lambda>c. c = CHR ''.'' \<or> c = CHR '':'') range_part'
      in if length parts = 4 then
           (case those (map py_int parts) of
              Some xs \<Rightarrow>
                parse_ranges_loop format_str ranges
                  (result @ [(xs ! 0, xs ! 1, xs ! 2, xs ! 3, format_str)])
            | None \<Rightarrow> parse_ranges_loop format_str ranges result)
         else parse_ranges_loop format_str ranges result)"

definition parse_excel_cell_range :: "string \<Rightarrow> string \<Rightarrow> format_rule list" where
  "parse_excel_cell_range range_str format_str =
     parse_ranges_loop format_str (split_on (\<lambda>c. c = CHR ''/'') range_str) []"

text \<open>
  \<^verbatim>\<open>_parse_format_configuration\<close>: the state it changes is \<^verbatim>\<open>ini_format_config\<close>, a
  dictionary from sheet names to rule lists; the new rules are appended
  (\<^verbatim>\<open>extend\<close>) to the sheet's list.
\<close>

definition parse_format_configuration ::
  "string \<Rightarrow> (string \<rightharpoonup> format_rule list) \<Rightarrow> (string \<rightharpoonup> format_rule list)" where
  "parse_format_configuration line ini_format_config =
     (let parts = split_on (\<lambda>c. c = CHR ''='' \<or> c = CHR ''^'') line in
      if length parts \<ge> 4 then
        (let sheet_name = parts ! 1;
             range_str = parts ! 2;
             number_format = parts ! 3;
             range_str' = py_replace (CHR ''E'') (py_str MAX_EXCEL_ROWS)
                            (py_strip (\<lambda>c. c \<in> set ''[]'') range_str);
             cell_ranges = parse_excel_cell_range range_str' number_format;
             old = (case ini_format_config sheet_name of None \<Rightarrow> [] | Some rs \<Rightarrow> rs)
         in ini_format_config(sheet_name \<mapsto> old @ cell_ranges))
      else ini_format_config)"

text \<open>
  \<^verbatim>\<open>_check_cell_has_custom_format\<close>: the loop over the sheet's rules returns at the
  first rule whose rectangle holds the 1-based cell. Every rule built by
  \<open>parse_ranges_loop\<close> has five components, so the source's length test always passes.
\<close>

fun check_rules :: "format_rule list \<Rightarrow> int \<Rightarrow> int \<Rightarrow> bool \<times> string" where
  "check_rules [] row_1based col_1based = (False, [])"
| "check_rules ((r1, c1, r2, c2, format_str) # rest) row_1based col_1based =
     (if r1 \<le> row_1based \<and> row_1based \<le> r2 \<and> c1 \<le> col_1based \<and> col_1based \<le> c2
      then (True, format_str)
      else check_rules rest row_1based col_1based)"

definition check_cell_has_custom_format ::
  "(string \<rightharpoonup> format_rule list) \<Rightarrow> string \<Rightarrow> nat \<Rightarrow> nat \<Rightarrow> bool \<times> string" where
  "check_cell_has_custom_format ini_format_config current_sheet_name row col =
     (case ini_format_config current_sheet_name of
        None \<Rightarrow> (False, [])
      | Some rules \<Rightarrow> check_rules rules (int row + 1) (int col + 1))"

section \<open>Configuration: CHART rules\<close>

text \<open>\<^verbatim>\<open>Constants.CHART_TYPE_LINE\<close>.\<close>

definition CHART_TYPE_LINE :: string where
  "CHART_TYPE_LINE = ''LINE''"

text \<open>
  One entry of \<^verbatim>\<open>ini_chart_config[sheet]\<close>: the tuple \<^verbatim>\<open>(range_str, chart_title,
  position_row, position_col, chart_type, x_axis_format, x_axis_title)\<close>.
\<close>

type_synonym chart_config = "string \<times> string \<times> int \<times> int \<times> string \<times> string \<times> string"

text \<open>\<^verbatim>\<open>line.split(sep, 1)[1]\<close>: the text after the first separator; \<open>None\<close> is \<^verbatim>\<open>IndexError\<close>.\<close>

fun after_first :: "char \<Rightarrow> string \<Rightarrow> string option" where
  "after_first sep [] = None"
| "after_first sep (c # cs) = (if c = sep then Some cs else after_first sep cs)"

text \<open>
  \<^verbatim>\<open>_parse_chart_configuration\<close>. The \<^verbatim>\<open>IndexError\<close> of a line without \<^verbatim>\<open>=\<close> and the
  \<^verbatim>\<open>ValueError\<close> of \<^verbatim>\<open>int()\<close> are caught by the source and leave \<^verbatim>\<open>ini_chart_config\<close>
  unchanged: both are raised before the dictionary is touched.
\<close>

definition parse_chart_configuration ::
  "string \<Rightarrow> (string \<rightharpoonup> chart_config list) \<Rightarrow> (string \<rightharpoonup> chart_config list)" where
  "parse_chart_configuration line ini_chart_config =
     (case after_first (CHR ''='') line of
        None \<Rightarrow> ini_chart_config
      | Some rhs \<Rightarrow>
          (let parts = split_on (\<lambda>c. c = CHR '','') rhs in
           if length parts \<ge> 8 then
             (let sheet_name = parts ! 0;
                  range_str = py_strip (\<lambda>c. c \<in> set ''[]'') (parts ! 1);
                  chart_title = (if length parts > 4 then parts ! 4 else []);
                  position_row = (if length parts > 5 then py_int (parts ! 5) else Some 2);
                  position_col = (if length parts > 6 then py_int (parts ! 6) else Some 2);
                  chart_type = (if length parts > 7 then parts ! 7 else CHART_TYPE_LINE);
                  x_axis_format = (if length parts > 9 then parts ! 9 else []);
                  x_axis_title = (if length parts > 10 then parts ! 10 else []);
                  old = (case ini_chart_config sheet_name of None \<Rightarrow> [] | Some cs \<Rightarrow> cs)
              in case position_row of
                   None \<Rightarrow> ini_chart_config
                 | Some pr \<Rightarrow>
                     (case position_col of
                        None \<Rightarrow> ini_chart_config
                      | Some pc \<Rightarrow>
                          ini_chart_config(sheet_name \<mapsto>
                            old @ [(range_str, chart_title, pr, pc, chart_type,
                                    x_axis_format, x_axis_title)])))
           else ini_chart_config))"

section \<open>Chart construction\<close>

text \<open>
  The workbook library is an external collaborator: the development records the calls
  the converter makes on it and their arguments. Where the library refuses a call by
  raising an exception, the refusal is part of the development: the sheet name
  (\<open>worksheet_ok\<close>), the calls of a chart (\<open>chart_ok\<close>) and a number that is not finite
  (\<open>write_number\<close>), each introduced below.
  A series is the dictionary handed to \<^verbatim>\<open>chart.add_series\<close>: \<^verbatim>\<open>name\<close> is a cell
  \<^verbatim>\<open>[sheet, row, col]\<close> or the empty string (\<open>None\<close>), \<^verbatim>\<open>values\<close> is a range
  \<^verbatim>\<open>[sheet, r1, c1, r2, c2]\<close>, and \<^verbatim>\<open>categories\<close> is a range or absent. All coordinates
  are 0-based here.
\<close>

type_synonym rect = "int \<times> int \<times> int \<times> int"

type_synonym range_ref = "string \<times> int \<times> int \<times> int \<times> int"

record series =
  series_name :: "(string \<times> int \<times> int) option"
  series_values :: range_ref
  series_categories :: "range_ref option"

text \<open>
  \<^verbatim>\<open>_add_data_series\<close>: the loop \<^verbatim>\<open>for col in range(c1, c2 + 1)\<close>; the last argument is
  the list of series the chart holds so far.
\<close>

function add_data_series_loop ::
  "string \<Rightarrow> int \<Rightarrow> int \<Rightarrow> int \<Rightarrow> int \<Rightarrow> rect option \<Rightarrow> series list \<Rightarrow> series list" where
  "add_data_series_loop sheet r1 col r2 c2 categories_range chart =
     (if col \<le> c2 then
        (let series_name = (if r1 = 0 then Some (sheet, 0, col) else None);
             values_r1 = (if r1 = 0 then 1 else r1);
             series_config =
               \<lparr>series_name = series_name,
                series_values = (sheet, values_r1, col, r2, col),
                series_categories =
                  (case categories_range of
                     None \<Rightarrow> None
                   | Some (cat_r1, cat_c1, cat_r2, cat_c2) \<Rightarrow>
                       Some (sheet, cat_r1, cat_c1, cat_r2, cat_c2))\<rparr>
         in add_data_series_loop sheet r1 (col + 1) r2 c2 categories_range
              (chart @ [series_config]))
      else chart)"
  by pat_completeness auto
termination
  by (relation "measure (\<lambda>(sheet, r1, col, r2, c2, cat, chart). nat (c2 + 1 - col))") auto

declare add_data_series_loop.simps [simp del]

definition add_data_series ::
  "string \<Rightarrow> int \<Rightarrow> int \<Rightarrow> int \<Rightarrow> int \<Rightarrow> rect option \<Rightarrow> series list \<Rightarrow> series list" where
  "add_data_series sheet r1 c1 r2 c2 categories_range chart =
     add_data_series_loop sheet r1 c1 r2 c2 categories_range chart"

text \<open>
  \<^verbatim>\<open>_add_series_to_chart\<close>: the loop over \<^verbatim>\<open>enumerate(range_str.split('/'))\<close>, with the
  index, \<^verbatim>\<open>categories_range\<close> and the chart's series as loop state. Both
  \<^verbatim>\<open>continue\<close> statements go to the next part with the state unchanged.
\<close>

fun add_series_loop ::
  "string \<Rightarrow> nat \<Rightarrow> nat \<Rightarrow> string list \<Rightarrow> rect option \<Rightarrow> series list \<Rightarrow> series list" where
  "add_series_loop sheet num_rows idx [] categories_range chart = chart"
| "add_series_loop sheet num_rows idx (range_part # ranges) categories_range chart =
     (let range_part1 = py_replace (CHR ''E'') (py_str num_rows) range_part;
          range_part2 = py_rstrip (\<lambda>c. c = CHR '']'') (py_strip is_space range_part1);
          parts = split_on (\<lambda>c. c = CHR ''.'' \<or> c = CHR '':'') range_part2
      in if length parts \<noteq> 4 then
           add_series_loop sheet num_rows (idx + 1) ranges categories_range chart
         else
           (case those (map py_int parts) of
              None \<Rightarrow> add_series_loop sheet num_rows (idx + 1) ranges categories_range chart
            | Some xs \<Rightarrow>
                (let r1 = xs ! 0 - 1; c1 = xs ! 1 - 1; r2 = xs ! 2 - 1; c2 = xs ! 3 - 1 in
                 if idx = 0 then
                   add_series_loop sheet num_rows (idx + 1) ranges (Some (r1, c1, r2, c2)) chart
                 else
                   add_series_loop sheet num_rows (idx + 1) ranges categories_range
                     (add_data_series sheet r1 c1 r2 c2 categories_range chart))))"

definition add_series_to_chart :: "string \<Rightarrow> string \<Rightarrow> nat \<Rightarrow> series list \<Rightarrow> series list" where
  "add_series_to_chart sheet range_str num_rows chart =
     add_series_loop sheet num_rows 0 (split_on (\<lambda>c. c = CHR ''/'') range_str) None chart"

text \<open>
  The chart object after \<^verbatim>\<open>_create_and_insert_chart\<close>: the type given to
  \<^verbatim>\<open>add_chart\<close>, the series added, and the properties set by
  \<^verbatim>\<open>_configure_chart_properties\<close> (title and X axis only when their texts are not
  empty, the legend position, the border switched off).
\<close>

record chart =
  chart_type :: string
  chart_series :: "series list"
  chart_title :: "string option"
  chart_x_axis :: "(string option \<times> string option) option"
  chart_legend :: string
  chart_border_none :: bool

definition configure_chart_properties :: "string \<Rightarrow> chart \<Rightarrow> string \<Rightarrow> string \<Rightarrow> string \<Rightarrow> chart" where
  "configure_chart_properties sheet ch title x_format x_title =
     ch\<lparr>chart_title := (if title \<noteq> [] then Some title else chart_title ch),
        chart_x_axis :=
          (if x_title \<noteq> [] \<or> x_format \<noteq> [] then
             Some (if x_title \<noteq> [] then Some x_title else None,
                   if x_format \<noteq> [] then Some x_format else None)
           else chart_x_axis ch),
        chart_legend := (if sheet = ''dbsize'' then ''none'' else ''overlay_right''),
        chart_border_none := True\<rparr>"

text \<open>
  The calls of \<^verbatim>\<open>_create_and_insert_chart\<close> for one rule, in the source's order:
  \<^verbatim>\<open>add_chart\<close> with the lower-case type, the series added by
  \<^verbatim>\<open>_add_series_to_chart\<close>, the properties set by \<^verbatim>\<open>_configure_chart_properties\<close>,
  and last \<^verbatim>\<open>insert_chart(pos_row - 1, pos_col - 1, chart)\<close>.
\<close>

definition chart_calls :: "string \<Rightarrow> chart_config \<Rightarrow> nat \<Rightarrow> int \<times> int \<times> chart" where
  "chart_calls sheet chart_config num_rows =
     (case chart_config of
        (range_str, title, pos_row, pos_col, ctype, x_format, x_title) \<Rightarrow>
          (let ch0 = \<lparr>chart_type = py_lower ctype, chart_series = [], chart_title = None,
                      chart_x_axis = None, chart_legend = [], chart_border_none = False\<rparr>;
               ch1 = ch0\<lparr>chart_series := add_series_to_chart sheet range_str num_rows (chart_series ch0)\<rparr>;
               ch2 = configure_chart_properties sheet ch1 title x_format x_title
           in (pos_row - 1, pos_col - 1, ch2)))"

text \<open>
  The exceptions that leave the modelled methods: \<^verbatim>\<open>TypeError\<close> from the library's
  \<^verbatim>\<open>write_number\<close>, and any exception raised while a chart is built.
\<close>

datatype py_error = TypeError | ChartError

text \<open>
  \<^verbatim>\<open>_create_and_insert_chart\<close>. The library does not carry out every sequence of
  chart calls: \<^verbatim>\<open>add_chart\<close> gives no chart object for a type it does not know, and
  the first call on that object raises. \<open>chart_ok\<close> says of the calls of one rule
  whether the library carries all of them out. When it does not, the exception leaves
  the method before \<^verbatim>\<open>insert_chart\<close>, the last call, so that nothing is inserted.
\<close>

definition create_and_insert_chart ::
  "(int \<times> int \<times> chart \<Rightarrow> bool) \<Rightarrow> string \<Rightarrow> chart_config \<Rightarrow> nat \<Rightarrow> py_error + (int \<times> int \<times> chart)" where
  "create_and_insert_chart chart_ok sheet chart_config num_rows =
     (let calls = chart_calls sheet chart_config num_rows in
      if chart_ok calls then Inr calls else Inl ChartError)"

text \<open>
  \<^verbatim>\<open>_add_charts_to_worksheet\<close>: the loop over the rules of the current sheet. The
  \<^verbatim>\<open>try\<close> around each rule catches every exception of its chart and goes on with the
  next rule. The last argument of the loop is the list of charts inserted so far.
\<close>

fun add_charts_loop ::
  "(int \<times> int \<times> chart \<Rightarrow> bool) \<Rightarrow> string \<Rightarrow> nat \<Rightarrow> chart_config list \<Rightarrow>
   (int \<times> int \<times> chart) list \<Rightarrow> (int \<times> int \<times> chart) list" where
  "add_charts_loop chart_ok sheet num_rows [] inserted = inserted"
| "add_charts_loop chart_ok sheet num_rows (chart_config # configs) inserted =
     (case create_and_insert_chart chart_ok sheet chart_config num_rows of
        Inl e \<Rightarrow> add_charts_loop chart_ok sheet num_rows configs inserted
      | Inr call \<Rightarrow> add_charts_loop chart_ok sheet num_rows configs (inserted @ [call]))"

definition add_charts_to_worksheet ::
  "(int \<times> int \<times> chart \<Rightarrow> bool) \<Rightarrow> (string \<rightharpoonup> chart_config list) \<Rightarrow> string \<Rightarrow> nat \<Rightarrow>
   (int \<times> int \<times> chart) list" where
  "add_charts_to_worksheet chart_ok ini_chart_config sheet num_rows =
     (case ini_chart_config sheet of
        None \<Rightarrow> []
      | Some configs \<Rightarrow> add_charts_loop chart_ok sheet num_rows configs [])"

section \<open>Type inference for cell text\<close>

text \<open>
  The text \<^verbatim>\<open>float()\<close> accepts, after the white space around it is removed: an
  optional sign, then \<^verbatim>\<open>inf\<close>, \<^verbatim>\<open>infinity\<close> or \<^verbatim>\<open>nan\<close> in any letter case, or a decimal
  number \<^verbatim>\<open>[digitpart] "." digitpart | digitpart ["."]\<close> with an optional exponent
  \<^verbatim>\<open>("e" | "E") [sign] digitpart\<close>.
\<close>

definition exponent_ok :: "string \<Rightarrow> bool" where
  "exponent_ok r =
     (case r of
        [] \<Rightarrow> True
      | e # r1 \<Rightarrow>
          (e = CHR ''e'' \<or> e = CHR ''E'') \<and>
          digitpart (case r1 of
                       [] \<Rightarrow> r1
                     | sg # r2 \<Rightarrow> if sg = CHR ''+'' \<or> sg = CHR ''-'' then r2 else r1) = Some [])"

definition floatnumber_ok :: "string \<Rightarrow> bool" where
  "floatnumber_ok s =
     (case digitpart s of
        Some r \<Rightarrow>
          (case r of
             [] \<Rightarrow> True
           | c # r1 \<Rightarrow>
               if c = CHR ''.'' then
                 (case digitpart r1 of Some r2 \<Rightarrow> exponent_ok r2 | None \<Rightarrow> exponent_ok r1)
               else exponent_ok r)
      | None \<Rightarrow>
          (case s of
             [] \<Rightarrow> False
           | c # r1 \<Rightarrow>
               c = CHR ''.'' \<and>
               (case digitpart r1 of Some r2 \<Rightarrow> exponent_ok r2 | None \<Rightarrow> False)))"

definition float_syntax :: "string \<Rightarrow> bool" where
  "float_syntax t =
     (let u = (case t of
                 [] \<Rightarrow> t
               | sg # r \<Rightarrow> if sg = CHR ''+'' \<or> sg = CHR ''-'' then r else t)
      in py_lower u \<in> set [''inf'', ''infinity'', ''nan''] \<or> floatnumber_ok u)"

text \<open>
  The value of \<^verbatim>\<open>float(s)\<close> is kept as the literal \<^verbatim>\<open>float()\<close> accepted (its text
  without the white space around it). Of the binary rounding of that literal only one
  thing is modelled, below: whether the result is a finite number. \<open>None\<close> is
  \<^verbatim>\<open>ValueError\<close>.
\<close>

datatype pyfloat = Float_of_literal string

definition py_float :: "string \<Rightarrow> pyfloat option" where
  "py_float s =
     (let t = py_strip is_num_space s in
      if float_syntax t then Some (Float_of_literal t) else None)"

text \<open>
  A decimal literal without its sign, as a natural number times a power of ten: the
  digits before and after the point, and the exponent less the number of digits after
  the point.
\<close>

definition decimal_of_literal :: "string \<Rightarrow> nat \<times> int" where
  "decimal_of_literal u =
     (let mant = takeWhile (\<lambda>c. c \<noteq> CHR ''e'' \<and> c \<noteq> CHR ''E'') u;
          expo = drop 1 (dropWhile (\<lambda>c. c \<noteq> CHR ''e'' \<and> c \<noteq> CHR ''E'') u);
          int_digits = filter is_digit (takeWhile (\<lambda>c. c \<noteq> CHR ''.'') mant);
          frac_digits = filter is_digit (dropWhile (\<lambda>c. c \<noteq> CHR ''.'') mant);
          exp_abs = int (digits_value (filter is_digit expo));
          exp_val = (if expo \<noteq> [] \<and> hd expo = CHR ''-'' then - exp_abs else exp_abs)
      in (digits_value (int_digits @ frac_digits), exp_val - int (length frac_digits)))"

text \<open>
  \<^verbatim>\<open>float()\<close> rounds to the nearest double, ties to even: a decimal is read as
  infinity exactly when it is at least \<open>2 ^ 1024 - 2 ^ 970\<close>, half-way between the
  largest double and \<open>2 ^ 1024\<close>.
\<close>

definition DBL_OVERFLOW :: nat where
  "DBL_OVERFLOW = 2 ^ 1024 - 2 ^ 970"

definition decimal_overflows :: "nat \<Rightarrow> int \<Rightarrow> bool" where
  "decimal_overflows m e =
     (if 0 \<le> e then DBL_OVERFLOW \<le> m * 10 ^ nat e else DBL_OVERFLOW * 10 ^ nat (- e) \<le> m)"

text \<open>The float read from an accepted literal is an infinity or not a number.\<close>

fun float_non_finite :: "pyfloat \<Rightarrow> bool" where
  "float_non_finite (Float_of_literal t) =
     (let u = (case t of
                 [] \<Rightarrow> t
               | sg # r \<Rightarrow> if sg = CHR ''+'' \<or> sg = CHR ''-'' then r else t)
      in if py_lower u \<in> set [''inf'', ''infinity'', ''nan''] then True
         else (case decimal_of_literal u of (m, e) \<Rightarrow> decimal_overflows m e))"

text \<open>\<^verbatim>\<open>_is_numeric_string\<close>.\<close>

definition is_numeric_string :: "string \<Rightarrow> bool" where
  "is_numeric_string text =
     (if text = [] then False
      else (let clean_text = py_replace (CHR '','') [] text in
            case py_float clean_text of Some v \<Rightarrow> True | None \<Rightarrow> False))"

text \<open>
  \<^verbatim>\<open>_is_date_string\<close>: at least ten characters, and the pattern
  \<^verbatim>\<open>^\d{4}-\d{2}-\d{2}\<close> matches at the start.
\<close>

definition date_pattern_match :: "string \<Rightarrow> bool" where
  "date_pattern_match text =
     (case text of
        y1 # y2 # y3 # y4 # s1 # m1 # m2 # s2 # d1 # d2 # rest \<Rightarrow>
          is_digit y1 \<and> is_digit y2 \<and> is_digit y3 \<and> is_digit y4 \<and> s1 = CHR ''-'' \<and>
          is_digit m1 \<and> is_digit m2 \<and> s2 = CHR ''-'' \<and> is_digit d1 \<and> is_digit d2
      | _ \<Rightarrow> False)"

definition is_date_string :: "string \<Rightarrow> bool" where
  "is_date_string text =
     (if text = [] \<or> length text < 10 then False else date_pattern_match text)"

text \<open>\<^verbatim>\<open>_convert_date_to_excel_format\<close>: every space becomes \<^verbatim>\<open>T\<close>.\<close>

definition convert_date_to_excel_format :: "string \<Rightarrow> string" where
  "convert_date_to_excel_format date_str = py_replace (CHR '' '') ''T'' date_str"

text \<open>\<^verbatim>\<open>s.endswith(suffix)\<close> and \<^verbatim>\<open>s.startswith(prefix)\<close>.\<close>

definition py_endswith :: "string \<Rightarrow> string \<Rightarrow> bool" where
  "py_endswith s suf = (length suf \<le> length s \<and> drop (length s - length suf) s = suf)"

definition py_startswith :: "string \<Rightarrow> string \<Rightarrow> bool" where
  "py_startswith s pre = (take (length pre) s = pre)"

subsection \<open>Strict date parsing\<close>

text \<open>
  \<^verbatim>\<open>datetime.strptime\<close> for the two formats the converter uses. The library turns a
  format into a regular expression, takes the first match the regular expression
  engine finds at the start of the text, refuses text left over after that match, and
  then builds the date, which refuses a day the calendar does not have, the year 0
  and a second above 59. Each directive below lists the matches of its alternatives
  in the order the engine tries them, as the number read and the text left.
  Any refusal is \<^verbatim>\<open>ValueError\<close>, here \<open>None\<close>.
\<close>

definition in_chars :: "string \<Rightarrow> char \<Rightarrow> bool" where
  "in_chars cs c = (c \<in> set cs)"

definition two_digits :: "(char \<Rightarrow> bool) \<Rightarrow> (char \<Rightarrow> bool) \<Rightarrow> string \<Rightarrow> (nat \<times> string) list" where
  "two_digits P Q s =
     (case s of a # b # r \<Rightarrow> if P a \<and> Q b then [(digits_value [a, b], r)] else [] | _ \<Rightarrow> [])"

definition one_digit :: "(char \<Rightarrow> bool) \<Rightarrow> string \<Rightarrow> (nat \<times> string) list" where
  "one_digit P s =
     (case s of a # r \<Rightarrow> if P a then [(digits_value [a], r)] else [] | [] \<Rightarrow> [])"

definition re_lit :: "(char \<Rightarrow> bool) \<Rightarrow> string \<Rightarrow> string list" where
  "re_lit P s = (case s of a # r \<Rightarrow> if P a then [r] else [] | [] \<Rightarrow> [])"

text \<open>\<^verbatim>\<open>%Y\<close> is \<^verbatim>\<open>\d\d\d\d\<close>.\<close>

definition re_Y :: "string \<Rightarrow> (nat \<times> string) list" where
  "re_Y s =
     (case s of
        a # b # c # d # r \<Rightarrow>
          if is_digit a \<and> is_digit b \<and> is_digit c \<and> is_digit d
          then [(digits_value [a, b, c, d], r)] else []
      | _ \<Rightarrow> [])"

text \<open>\<^verbatim>\<open>%m\<close> is \<^verbatim>\<open>1[0-2]|0[1-9]|[1-9]\<close>.\<close>

definition re_m :: "string \<Rightarrow> (nat \<times> string) list" where
  "re_m s =
     two_digits (in_chars ''1'') (in_chars ''012'') s @
     two_digits (in_chars ''0'') (in_chars ''123456789'') s @
     one_digit (in_chars ''123456789'') s"

text \<open>\<^verbatim>\<open>%d\<close> is \<^verbatim>\<open>3[0-1]|[1-2]\d|0[1-9]|[1-9]| [1-9]\<close>.\<close>

definition re_d :: "string \<Rightarrow> (nat \<times> string) list" where
  "re_d s =
     two_digits (in_chars ''3'') (in_chars ''01'') s @
     two_digits (in_chars ''12'') is_digit s @
     two_digits (in_chars ''0'') (in_chars ''123456789'') s @
     one_digit (in_chars ''123456789'') s @
     (case s of
        a # b # r \<Rightarrow>
          if a = CHR '' '' \<and> in_chars ''123456789'' b then [(digits_value [b], r)] else []
      | _ \<Rightarrow> [])"

text \<open>\<^verbatim>\<open>%H\<close> is \<^verbatim>\<open>2[0-3]|[0-1]\d|\d\<close>.\<close>

definition re_H :: "string \<Rightarrow> (nat \<times> string) list" where
  "re_H s =
     two_digits (in_chars ''2'') (in_chars ''0123'') s @
     two_digits (in_chars ''01'') is_digit s @
     one_digit is_digit s"

text \<open>\<^verbatim>\<open>%M\<close> is \<^verbatim>\<open>[0-5]\d|\d\<close>.\<close>

definition re_M :: "string \<Rightarrow> (nat \<times> string) list" where
  "re_M s = two_digits (in_chars ''012345'') is_digit s @ one_digit is_digit s"

text \<open>\<^verbatim>\<open>%S\<close> is \<^verbatim>\<open>6[0-1]|[0-5]\d|\d\<close>.\<close>

definition re_S :: "string \<Rightarrow> (nat \<times> string) list" where
  "re_S s =
     two_digits (in_chars ''6'') (in_chars ''01'') s @
     two_digits (in_chars ''012345'') is_digit s @
     one_digit is_digit s"

definition is_leap :: "nat \<Rightarrow> bool" where
  "is_leap y = (y mod 4 = 0 \<and> (y mod 100 \<noteq> 0 \<or> y mod 400 = 0))"

definition days_in_month :: "nat \<Rightarrow> nat \<Rightarrow> nat" where
  "days_in_month y m =
     (if m = 2 then (if is_leap y then 29 else 28)
      else if m = 4 \<or> m = 6 \<or> m = 9 \<or> m = 11 then 30 else 31)"

definition valid_date :: "nat \<Rightarrow> nat \<Rightarrow> nat \<Rightarrow> bool" where
  "valid_date y m d =
     (1 \<le> y \<and> y \<le> 9999 \<and> 1 \<le> m \<and> m \<le> 12 \<and> 1 \<le> d \<and> d \<le> days_in_month y m)"

text \<open>A date and time of day: year, month, day, hour, minute, second.\<close>

type_synonym datetime = "nat \<times> nat \<times> nat \<times> nat \<times> nat \<times> nat"

text \<open>\<^verbatim>\<open>datetime.strptime(s, '%Y-%m-%d')\<close>.\<close>

definition strptime_date :: "string \<Rightarrow> datetime option" where
  "strptime_date s =
     (case [(y, m, d, r5).
              (y, r1) \<leftarrow> re_Y s, r2 \<leftarrow> re_lit (\<lambda>c. c = CHR ''-'') r1,
              (m, r3) \<leftarrow> re_m r2, r4 \<leftarrow> re_lit (\<lambda>c. c = CHR ''-'') r3,
              (d, r5) \<leftarrow> re_d r4] of
        [] \<Rightarrow> None
      | (y, m, d, rest) # others \<Rightarrow>
          if rest = [] \<and> valid_date y m d then Some (y, m, d, 0, 0, 0) else None)"

text \<open>
  \<^verbatim>\<open>datetime.strptime(s, '%Y-%m-%dT%H:%M:%S')\<close>; the expression is compiled without
  regard to letter case, so the letter of the format matches \<^verbatim>\<open>T\<close> and \<^verbatim>\<open>t\<close>.
\<close>

definition strptime_datetime :: "string \<Rightarrow> datetime option" where
  "strptime_datetime s =
     (case [(y, m, d, hh, mm, ss, r11).
              (y, r1) \<leftarrow> re_Y s, r2 \<leftarrow> re_lit (\<lambda>c. c = CHR ''-'') r1,
              (m, r3) \<leftarrow> re_m r2, r4 \<leftarrow> re_lit (\<lambda>c. c = CHR ''-'') r3,
              (d, r5) \<leftarrow> re_d r4, r6 \<leftarrow> re_lit (\<lambda>c. c = CHR ''T'' \<or> c = CHR ''t'') r5,
              (hh, r7) \<leftarrow> re_H r6, r8 \<leftarrow> re_lit (\<lambda>c. c = CHR '':'') r7,
              (mm, r9) \<leftarrow> re_M r8, r10 \<leftarrow> re_lit (\<lambda>c. c = CHR '':'') r9,
              (ss, r11) \<leftarrow> re_S r10] of
        [] \<Rightarrow> None
      | (y, m, d, hh, mm, ss, rest) # others \<Rightarrow>
          if rest = [] \<and> valid_date y m d \<and> ss \<le> 59 then Some (y, m, d, hh, mm, ss) else None)"

section \<open>Writing cells\<close>

text \<open>
  The formats of the workbook: the four default ones of
  \<^verbatim>\<open>_define_default_excel_formats\<close>, and the entry of \<^verbatim>\<open>excel_format_cache\<close> under a
  format string.
\<close>

datatype xl_format = Number_format | String_format | Date_format | Datetime_format
  | Cached_format string

text \<open>The call made on the worksheet for one cell, with its 0-based row and column.\<close>

datatype cell_write =
    Write_string nat nat string xl_format
  | Write_number nat nat pyfloat xl_format
  | Write_datetime nat nat datetime xl_format

text \<open>
  The library's \<^verbatim>\<open>write_number\<close>: the workbook is created without the option
  \<^verbatim>\<open>nan_inf_to_errors\<close>, and the library then raises \<^verbatim>\<open>TypeError\<close> for an infinity and
  for not-a-number instead of writing the cell.
\<close>

definition write_number :: "nat \<Rightarrow> nat \<Rightarrow> pyfloat \<Rightarrow> xl_format \<Rightarrow> py_error + cell_write" where
  "write_number row col num_value fmt =
     (if float_non_finite num_value then Inl TypeError
      else Inr (Write_number row col num_value fmt))"

text \<open>\<^verbatim>\<open>_write_date_value\<close>; a \<^verbatim>\<open>ValueError\<close> of the strict parse writes the text as it is.\<close>

definition write_date_value :: "nat \<Rightarrow> nat \<Rightarrow> string \<Rightarrow> cell_write" where
  "write_date_value row col date_str =
     (let excel_date_str = convert_date_to_excel_format date_str;
          has_time = (length date_str > 10 \<and> \<not> py_endswith date_str '' 00:00:00'')
      in if has_time then
           (case strptime_datetime (take 19 excel_date_str) of
              Some dt_obj \<Rightarrow> Write_datetime row col dt_obj Datetime_format
            | None \<Rightarrow> Write_string row col date_str String_format)
         else
           (case strptime_date (take 10 excel_date_str) of
              Some dt_obj \<Rightarrow> Write_datetime row col dt_obj Date_format
            | None \<Rightarrow> Write_string row col date_str String_format))"

text \<open>
  \<^verbatim>\<open>_write_cell_value\<close>. Each of the two numeric blocks either ends the method
  (\<open>Some\<close>: the cell written, or the \<^verbatim>\<open>TypeError\<close> of \<^verbatim>\<open>write_number\<close>, which the
  block's \<^verbatim>\<open>except ValueError\<close> does not catch) or falls through to the code after it
  (\<open>None\<close>), as the source's \<^verbatim>\<open>return\<close> and \<^verbatim>\<open>except ValueError: pass\<close> do.
\<close>

definition write_cell_value ::
  "string set \<Rightarrow> nat \<Rightarrow> nat \<Rightarrow> string \<Rightarrow> bool \<Rightarrow> string \<Rightarrow> py_error + cell_write" where
  "write_cell_value excel_format_cache row col val has_custom_format custom_format_key =
     (if val = [] then Inr (Write_string row col [] String_format)
      else
        (case (if has_custom_format \<and> custom_format_key \<in> excel_format_cache then
                 (if is_numeric_string val then
                    (case py_float (py_replace (CHR '','') [] val) of
                       Some num_value \<Rightarrow>
                         Some (write_number row col num_value (Cached_format custom_format_key))
                     | None \<Rightarrow> None)
                  else None)
               else None) of
           Some outcome \<Rightarrow> outcome
         | None \<Rightarrow>
             if col = 0 \<and> is_date_string val then Inr (write_date_value row col val)
             else
               (case (if col > 0 \<and> is_numeric_string val then
                        (case py_float (py_replace (CHR '','') [] val) of
                           Some num_value \<Rightarrow>
                             Some (write_number row col num_value
                                     (if has_custom_format \<and> custom_format_key \<in> excel_format_cache
                                      then Cached_format custom_format_key else Number_format))
                         | None \<Rightarrow> None)
                      else None) of
                  Some outcome \<Rightarrow> outcome
                | None \<Rightarrow> Inr (Write_string row col val String_format))))"

section \<open>Writing a sheet\<close>

text \<open>The fields of the converter object that the modelled methods read or change.\<close>

record converter =
  ini_format_config :: "string \<rightharpoonup> format_rule list"
  ini_chart_config :: "string \<rightharpoonup> chart_config list"
  excel_format_cache :: "string set"
  current_sheet_name :: string

text \<open>
  \<^verbatim>\<open>_create_format_objects_for_current_sheet\<close>: the cache gets an entry for the format
  string of every rule of the current sheet.
\<close>

definition create_format_objects_for_current_sheet :: "converter \<Rightarrow> converter" where
  "create_format_objects_for_current_sheet st =
     (case ini_format_config st (current_sheet_name st) of
        None \<Rightarrow> st
      | Some rules \<Rightarrow>
          st\<lparr>excel_format_cache :=
               excel_format_cache st \<union> set (map (\<lambda>(r1, c1, r2, c2, format_str). format_str) rules)\<rparr>)"

text \<open>The worksheet after \<^verbatim>\<open>_write_table_data_to_worksheet\<close>: the cells written, in order, and the charts inserted.\<close>

record worksheet =
  ws_cells :: "cell_write list"
  ws_charts :: "(int \<times> int \<times> chart) list"

text \<open>
  The two loops of \<^verbatim>\<open>_write_table_data_to_worksheet\<close> over the cells of a row and
  over the rows, with the running index of \<^verbatim>\<open>enumerate\<close> and the cells written so far.
  An exception of \<^verbatim>\<open>_write_cell_value\<close> is not caught here: it ends both loops.
\<close>

fun write_row_loop ::
  "(string \<rightharpoonup> format_rule list) \<Rightarrow> string set \<Rightarrow> string \<Rightarrow> nat \<Rightarrow> nat \<Rightarrow> string list \<Rightarrow>
   cell_write list \<Rightarrow> py_error + cell_write list" where
  "write_row_loop fc cache sheet row_idx col_idx [] written = Inr written"
| "write_row_loop fc cache sheet row_idx col_idx (cell_value # row_data) written =
     (case check_cell_has_custom_format fc sheet row_idx col_idx of
        (has_custom_format, custom_format_key) \<Rightarrow>
          (case write_cell_value cache row_idx col_idx cell_value
                  has_custom_format custom_format_key of
             Inl e \<Rightarrow> Inl e
           | Inr w \<Rightarrow>
               write_row_loop fc cache sheet row_idx (col_idx + 1) row_data (written @ [w])))"

fun write_rows_loop ::
  "(string \<rightharpoonup> format_rule list) \<Rightarrow> string set \<Rightarrow> string \<Rightarrow> nat \<Rightarrow> string list list \<Rightarrow>
   cell_write list \<Rightarrow> py_error + cell_write list" where
  "write_rows_loop fc cache sheet row_idx [] written = Inr written"
| "write_rows_loop fc cache sheet row_idx (row_data # table_data) written =
     (case write_row_loop fc cache sheet row_idx 0 row_data written of
        Inl e \<Rightarrow> Inl e
      | Inr written' \<Rightarrow> write_rows_loop fc cache sheet (row_idx + 1) table_data written')"

text \<open>
  \<^verbatim>\<open>_write_table_data_to_worksheet\<close>. \<open>worksheet_ok\<close> says whether the library's
  \<^verbatim>\<open>add_worksheet\<close> accepted the sheet name; when it did not, the source returns at
  once with nothing written (\<open>None\<close>). \<open>chart_ok\<close> is the library's part in the
  charts, as above. An exception of a cell leaves the method (\<open>Inl\<close>) before the
  charts are reached; the caller then ends the run. The charts get the number of rows
  of the table, \<^verbatim>\<open>len(table_data)\<close>.
\<close>

definition write_table_data_to_worksheet ::
  "bool \<Rightarrow> (int \<times> int \<times> chart \<Rightarrow> bool) \<Rightarrow> converter \<Rightarrow> string list list \<Rightarrow>
   py_error + (converter \<times> worksheet option)" where
  "write_table_data_to_worksheet worksheet_ok chart_ok st table_data =
     (if \<not> worksheet_ok then Inr (st, None)
      else
        (let st1 = create_format_objects_for_current_sheet st;
             sheet = current_sheet_name st1
         in case write_rows_loop (ini_format_config st1) (excel_format_cache st1) sheet 0
                   table_data [] of
              Inl e \<Rightarrow> Inl e
            | Inr cells \<Rightarrow>
                Inr (st1, Some \<lparr>ws_cells = cells,
                                ws_charts = add_charts_to_worksheet chart_ok (ini_chart_config st1)
                                              sheet (length table_data)\<rparr>)))"

section \<open>Loading the configuration\<close>

text \<open>
  The loop of \<^verbatim>\<open>load_and_parse_ini_configuration\<close> over the lines of the configuration
  file, in file order.
\<close>

fun load_lines :: "string list \<Rightarrow> converter \<Rightarrow> converter" where
  "load_lines [] st = st"
| "load_lines (raw # rest) st =
     (let line = py_strip is_space raw in
      if line = [] \<or> \<not> (py_startswith line ''FORMAT'' \<or> py_startswith line ''CHART'') then
        load_lines rest st
      else
        (let line' = py_rstrip (\<lambda>c. c = CHR 0x0D \<or> c = CHR 0x0A) line in
         if py_startswith line' ''FORMAT'' then
           load_lines rest
             (st\<lparr>ini_format_config := parse_format_configuration line' (ini_format_config st)\<rparr>)
         else if py_startswith line' ''CHART'' then
           load_lines rest
             (st\<lparr>ini_chart_config := parse_chart_configuration line' (ini_chart_config st)\<rparr>)
         else load_lines rest st))"

section \<open>Notions used in the statements\<close>

text \<open>
  A text that splits on \<^verbatim>\<open>.\<close> and \<^verbatim>\<open>:\<close> into exactly four tokens, each of them an
  integer for \<^verbatim>\<open>int()\<close>, and the four integers it gives.
\<close>

definition four_ints :: "string \<Rightarrow> (int \<times> int \<times> int \<times> int) option" where
  "four_ints s =
     (case map py_int (split_on (\<lambda>c. c = CHR ''.'' \<or> c = CHR '':'') s) of
        [Some a, Some b, Some c, Some d] \<Rightarrow> Some (a, b, c, d)
      | _ \<Rightarrow> None)"

text \<open>
  The rectangle of one sub-range of a chart's range spec on a table of \<open>num_rows\<close>
  rows, in 0-based coordinates; \<open>None\<close> for a sub-range that is not well-formed.
\<close>

definition chart_sub_rect :: "nat \<Rightarrow> string \<Rightarrow> rect option" where
  "chart_sub_rect num_rows range_part =
     (case four_ints (py_rstrip (\<lambda>c. c = CHR '']'')
                       (py_strip is_space (py_replace (CHR ''E'') (py_str num_rows) range_part))) of
        None \<Rightarrow> None
      | Some (r1, c1, r2, c2) \<Rightarrow> Some (r1 - 1, c1 - 1, r2 - 1, c2 - 1))"

text \<open>A rule's rectangle holds the cell at the 0-based \<open>row\<close> and \<open>col\<close>.\<close>

definition covers :: "format_rule \<Rightarrow> nat \<Rightarrow> nat \<Rightarrow> bool" where
  "covers rule row col =
     (case rule of
        (r1, c1, r2, c2, format_str) \<Rightarrow>
          r1 \<le> int row + 1 \<and> int row + 1 \<le> r2 \<and> c1 \<le> int col + 1 \<and> int col + 1 \<le> c2)"

text \<open>
  The tokens of a CHART directive: the text after the first \<^verbatim>\<open>=\<close>, split at the commas
  (no token at all for a line without \<^verbatim>\<open>=\<close>). Token 5 is the anchor row, token 6 the
  anchor column and token 7 the chart type.
\<close>

definition chart_tokens :: "string \<Rightarrow> string list" where
  "chart_tokens line =
     (case after_first (CHR ''='') line of
        None \<Rightarrow> []
      | Some rhs \<Rightarrow> split_on (\<lambda>c. c = CHR '','') rhs)"

section \<open>Range specs: one rectangle per well-formed sub-range\<close>

lemma length_four: "length xs = 4 \<Longrightarrow> \<exists>a b c d. xs = [a, b, c, d]"
  by (auto simp: numeral_eq_Suc length_Suc_conv)

lemma four_tokens:
  assumes "length (split_on (\<lambda>c. c = CHR ''.'' \<or> c = CHR '':'') s) = 4"
  shows "those (map py_int (split_on (\<lambda>c. c = CHR ''.'' \<or> c = CHR '':'') s)) =
         map_option (\<lambda>(a, b, c, d). [a, b, c, d]) (four_ints s)"
proof -
  from length_four [OF assms] obtain a b c d
    where "split_on (\<lambda>c. c = CHR ''.'' \<or> c = CHR '':'') s = [a, b, c, d]" by blast
  then show ?thesis
    by (simp add: four_ints_def split: option.splits)
qed

lemma other_tokens:
  assumes "length (split_on (\<lambda>c. c = CHR ''.'' \<or> c = CHR '':'') s) \<noteq> 4"
  shows "four_ints s = None"
  using assms by (auto simp: four_ints_def split: list.splits option.splits)

lemma parse_ranges_loop_eq:
  "parse_ranges_loop fmt subs acc =
     acc @ concat (map (\<lambda>sub. case four_ints (py_strip is_space sub) of
                                 None \<Rightarrow> []
                               | Some (r1, c1, r2, c2) \<Rightarrow> [(r1, c1, r2, c2, fmt)]) subs)"
proof (induction subs arbitrary: acc)
  case Nil
  show ?case by simp
next
  case (Cons sub subs)
  show ?case
  proof (cases "length (split_on (\<lambda>c. c = CHR ''.'' \<or> c = CHR '':'') (py_strip is_space sub)) = 4")
    case True
    show ?thesis
      by (cases "four_ints (py_strip is_space sub)")
        (auto simp add: Let_def True four_tokens [OF True] Cons.IH)
  next
    case False
    show ?thesis
      by (simp add: Let_def False other_tokens [OF False] Cons.IH)
  qed
qed

lemma upto_first: "c1 \<le> c2 \<Longrightarrow> [c1..c2] = c1 # [c1 + 1..c2]"
  by (simp add: upto_rec1)

lemma add_data_series_loop_eq:
  "add_data_series_loop sheet r1 col r2 c2 cat chart =
     chart @ map (\<lambda>col. \<lparr>series_name = (if r1 = 0 then Some (sheet, 0, col) else None),
                          series_values = (sheet, if r1 = 0 then 1 else r1, col, r2, col),
                          series_categories =
                            (case cat of None \<Rightarrow> None
                             | Some (cat_r1, cat_c1, cat_r2, cat_c2) \<Rightarrow>
                                 Some (sheet, cat_r1, cat_c1, cat_r2, cat_c2))\<rparr>) [col..c2]"
proof (induction sheet r1 col r2 c2 cat chart rule: add_data_series_loop.induct)
  case (1 sheet r1 col r2 c2 cat chart)
  show ?case
  proof (cases "col \<le> c2")
    case True
    show ?thesis
      by (subst add_data_series_loop.simps)
        (simp add: True "1.IH" [OF True refl refl refl] upto_first [OF True] Let_def)
  next
    case False
    then show ?thesis
      by (subst add_data_series_loop.simps) simp
  qed
qed

lemma split_on_not_Nil: "split_on P s \<noteq> []"
  by (induction s) (auto split: list.splits)

lemma add_data_series_append:
  "add_data_series sheet r1 c1 r2 c2 cat chart = chart @ add_data_series sheet r1 c1 r2 c2 cat []"
  by (simp add: add_data_series_def add_data_series_loop_eq)

lemma add_series_loop_later:
  "0 < idx \<Longrightarrow>
   add_series_loop sheet n idx parts cat chart =
     chart @ concat (map (\<lambda>sub. case chart_sub_rect n sub of
                                   None \<Rightarrow> []
                                 | Some (r1, c1, r2, c2) \<Rightarrow> add_data_series sheet r1 c1 r2 c2 cat [])
                      parts)"
proof (induction parts arbitrary: idx chart)
  case Nil
  show ?case by simp
next
  case (Cons sub parts)
  let ?s = "py_rstrip (\<lambda>c. c = CHR '']'')
              (py_strip is_space (py_replace (CHR ''E'') (py_str n) sub))"
  have step: "\<And>ch. add_series_loop sheet n (Suc idx) parts cat ch =
     ch @ concat (map (\<lambda>sub. case chart_sub_rect n sub of
                                   None \<Rightarrow> []
                                 | Some (r1, c1, r2, c2) \<Rightarrow> add_data_series sheet r1 c1 r2 c2 cat [])
                      parts)"
    by (rule Cons.IH) simp
  show ?case
  proof (cases "length (split_on (\<lambda>c. c = CHR ''.'' \<or> c = CHR '':'') ?s) = 4")
    case True
    show ?thesis
      using Cons.prems
      by (cases "four_ints ?s")
        (auto simp add: Let_def True four_tokens [OF True] step chart_sub_rect_def [of n sub]
           add_data_series_append [of _ _ _ _ _ _ chart])
  next
    case False
    show ?thesis
      by (simp add: Let_def False other_tokens [OF False] step chart_sub_rect_def [of n sub])
  qed
qed

lemma add_series_loop_first:
  "add_series_loop sheet n 0 (sub # parts) None chart =
     add_series_loop sheet n 1 parts (chart_sub_rect n sub) chart"
proof -
  let ?s = "py_rstrip (\<lambda>c. c = CHR '']'')
              (py_strip is_space (py_replace (CHR ''E'') (py_str n) sub))"
  show ?thesis
  proof (cases "length (split_on (\<lambda>c. c = CHR ''.'' \<or> c = CHR '':'') ?s) = 4")
    case True
    show ?thesis
      by (cases "four_ints ?s")
        (auto simp add: Let_def True four_tokens [OF True] chart_sub_rect_def)
  next
    case False
    show ?thesis
      by (simp add: Let_def False other_tokens [OF False] chart_sub_rect_def)
  qed
qed

lemma add_series_to_chart_eq:
  "add_series_to_chart sheet range_str n chart =
     chart @ concat (map (\<lambda>sub. case chart_sub_rect n sub of
                             None \<Rightarrow> []
                           | Some (r1, c1, r2, c2) \<Rightarrow>
                               add_data_series sheet r1 c1 r2 c2
                                 (chart_sub_rect n (hd (split_on (\<lambda>c. c = CHR ''/'') range_str))) [])
                      (tl (split_on (\<lambda>c. c = CHR ''/'') range_str)))"
proof (cases "split_on (\<lambda>c. c = CHR ''/'') range_str")
  case Nil
  then show ?thesis by (simp add: split_on_not_Nil)
next
  case (Cons sub parts)
  show ?thesis
    unfolding add_series_to_chart_def Cons
    by (simp only: add_series_loop_first add_series_loop_later [OF zero_less_one] list.sel)
qed

text \<open>
  Claim C8. A range spec is split on \<^verbatim>\<open>/\<close> and every sub-range is treated by itself:
  in a FORMAT rule it gives its rectangle when it has exactly four integer tokens and
  nothing otherwise; in a CHART rule every sub-range after the first gives the series
  of its rectangle when it has exactly four integer tokens and nothing otherwise. A
  sub-range that is dropped takes no other sub-range with it.
\<close>

theorem sub_ranges_parsed_independently:
  "parse_excel_cell_range range_str fmt =
     concat (map (\<lambda>sub. case four_ints (py_strip is_space sub) of
                           None \<Rightarrow> []
                         | Some (r1, c1, r2, c2) \<Rightarrow> [(r1, c1, r2, c2, fmt)])
               (split_on (\<lambda>c. c = CHR ''/'') range_str))
   \<and> add_series_to_chart sheet range_str n [] =
     concat (map (\<lambda>sub. case chart_sub_rect n sub of
                           None \<Rightarrow> []
                         | Some (r1, c1, r2, c2) \<Rightarrow>
                             add_data_series sheet r1 c1 r2 c2
                               (chart_sub_rect n (hd (split_on (\<lambda>c. c = CHR ''/'') range_str))) [])
               (tl (split_on (\<lambda>c. c = CHR ''/'') range_str)))"
  by (simp add: parse_excel_cell_range_def parse_ranges_loop_eq add_series_to_chart_eq)

text \<open>The equations that evaluate the parsers on a given text.\<close>

lemmas eval_simps = four_ints_def chart_sub_rect_def py_strip_def py_rstrip_def py_lstrip_def
  py_int_def digitpart_def is_digit_def is_space_def is_num_space_def digits_value_def
  add_data_series_def add_data_series_loop.simps py_str.simps Let_def

text \<open>The equations that evaluate the configuration parsers on a given line.\<close>

lemmas load_simps = parse_chart_configuration_def parse_format_configuration_def
  py_startswith_def py_strip_def py_rstrip_def py_lstrip_def is_space_def is_num_space_def
  py_int_def digitpart_def is_digit_def digits_value_def Let_def

theorem sub_ranges_parsed_independently_witness:
  "parse_excel_cell_range ''1.2:5.4/x.y:1.1/1.6:5.8/1.2:3/1.2.3:4.5'' ''###,##0'' =
     [(1, 2, 5, 4, ''###,##0''), (1, 6, 5, 8, ''###,##0'')]
   \<and> add_series_to_chart ''load'' ''2.1:E.1/x/2.3:E.4/1.2:3'' 9 [] =
     [\<lparr>series_name = None, series_values = (''load'', 1, 2, 8, 2),
        series_categories = Some (''load'', 1, 0, 8, 0)\<rparr>,
      \<lparr>series_name = None, series_values = (''load'', 1, 3, 8, 3),
        series_categories = Some (''load'', 1, 0, 8, 0)\<rparr>]"
  using sub_ranges_parsed_independently
          [of "''1.2:5.4/x.y:1.1/1.6:5.8/1.2:3/1.2.3:4.5''" "''###,##0''" "''load''" 9]
        sub_ranges_parsed_independently
          [of "''2.1:E.1/x/2.3:E.4/1.2:3''" "''###,##0''" "''load''" 9]
  by (simp add: eval_simps)

section \<open>Chart series\<close>

text \<open>
  Claim C2. Every sub-range after the first of a chart's range spec that gives a
  rectangle adds one series per column from the rectangle's first to its last column.
  When the rectangle's first row is row 0 in 0-based coordinates, the series of a
  column is named by the cell in row 0 of that column and its values start at row 1;
  otherwise the series has no name and its values run over the rectangle's own rows.
\<close>

theorem value_series_per_column:
  "add_series_to_chart sheet range_str n [] =
     concat (map (\<lambda>sub. case chart_sub_rect n sub of
                   None \<Rightarrow> []
                 | Some (r1, c1, r2, c2) \<Rightarrow>
                     map (\<lambda>col. \<lparr>series_name = (if r1 = 0 then Some (sheet, 0, col) else None),
                                  series_values = (sheet, if r1 = 0 then 1 else r1, col, r2, col),
                                  series_categories =
                                    (case chart_sub_rect n (hd (split_on (\<lambda>c. c = CHR ''/'') range_str)) of
                                       None \<Rightarrow> None
                                     | Some (cat_r1, cat_c1, cat_r2, cat_c2) \<Rightarrow>
                                         Some (sheet, cat_r1, cat_c1, cat_r2, cat_c2))\<rparr>)
                       [c1..c2])
               (tl (split_on (\<lambda>c. c = CHR ''/'') range_str)))"
  by (simp add: add_series_to_chart_eq add_data_series_def add_data_series_loop_eq
        cong: option.case_cong prod.case_cong)

theorem value_series_per_column_witness:
  "add_series_to_chart ''load'' ''1.2:E.2/1.31:E.32/3.5:E.5'' 4 [] =
     [\<lparr>series_name = Some (''load'', 0, 30), series_values = (''load'', 1, 30, 3, 30),
        series_categories = Some (''load'', 0, 1, 3, 1)\<rparr>,
      \<lparr>series_name = Some (''load'', 0, 31), series_values = (''load'', 1, 31, 3, 31),
        series_categories = Some (''load'', 0, 1, 3, 1)\<rparr>,
      \<lparr>series_name = None, series_values = (''load'', 2, 4, 3, 4),
        series_categories = Some (''load'', 0, 1, 3, 1)\<rparr>]"
  using value_series_per_column [of "''load''" "''1.2:E.2/1.31:E.32/3.5:E.5''" 4]
  by (simp add: eval_simps upto_first)

lemma chart_series_calls:
  "chart_series (snd (snd (chart_calls sheet (range_str, title, pos_row, pos_col, ty, xf, xt) n))) =
     add_series_to_chart sheet range_str n []"
  by (simp add: chart_calls_def configure_chart_properties_def Let_def)

lemma anchor_calls:
  "fst (chart_calls sheet (range_str, title, pos_row, pos_col, ty, xf, xt) n) = pos_row - 1"
  "fst (snd (chart_calls sheet (range_str, title, pos_row, pos_col, ty, xf, xt) n)) = pos_col - 1"
  by (simp_all add: chart_calls_def Let_def)

lemma add_charts_loop_eq:
  "add_charts_loop chart_ok sheet n configs inserted =
     inserted @ filter chart_ok (map (\<lambda>chart_config. chart_calls sheet chart_config n) configs)"
  by (induction configs arbitrary: inserted) (simp_all add: create_and_insert_chart_def Let_def)

lemma add_charts_to_worksheet_eq:
  "add_charts_to_worksheet chart_ok cc sheet n =
     (case cc sheet of
        None \<Rightarrow> []
      | Some configs \<Rightarrow>
          filter chart_ok (map (\<lambda>chart_config. chart_calls sheet chart_config n) configs))"
  by (simp add: add_charts_to_worksheet_def add_charts_loop_eq split: option.splits)

text \<open>
  Claim C10. When the first sub-range of a chart rule's range spec is not well-formed,
  the chart of the rule is still built: every later well-formed sub-range still adds
  its series, no series of the chart has a categories range, and the chart is inserted
  at its anchor, provided the library carries out the chart's calls (it would refuse,
  for one, a chart type it does not know, with or without a well-formed first
  sub-range).
\<close>

theorem malformed_category_sub_range:
  assumes "cc sheet = Some configs"
      and "(range_str, title, pos_row, pos_col, ty, xf, xt) \<in> set configs"
      and "chart_sub_rect n (hd (split_on (\<lambda>c. c = CHR ''/'') range_str)) = None"
      and "chart_ok (chart_calls sheet (range_str, title, pos_row, pos_col, ty, xf, xt) n)"
  shows "chart_calls sheet (range_str, title, pos_row, pos_col, ty, xf, xt) n
           \<in> set (add_charts_to_worksheet chart_ok cc sheet n)
     \<and> fst (chart_calls sheet (range_str, title, pos_row, pos_col, ty, xf, xt) n) = pos_row - 1
     \<and> fst (snd (chart_calls sheet (range_str, title, pos_row, pos_col, ty, xf, xt) n)) = pos_col - 1
     \<and> chart_series (snd (snd (chart_calls sheet (range_str, title, pos_row, pos_col, ty, xf, xt) n))) =
       concat (map (\<lambda>sub. case chart_sub_rect n sub of
                   None \<Rightarrow> []
                 | Some (r1, c1, r2, c2) \<Rightarrow>
                     map (\<lambda>col. \<lparr>series_name = (if r1 = 0 then Some (sheet, 0, col) else None),
                                  series_values = (sheet, if r1 = 0 then 1 else r1, col, r2, col),
                                  series_categories = None\<rparr>)
                       [c1..c2])
               (tl (split_on (\<lambda>c. c = CHR ''/'') range_str)))
     \<and> (\<forall>s \<in> set (chart_series (snd (snd (chart_calls sheet
                        (range_str, title, pos_row, pos_col, ty, xf, xt) n)))).
          series_categories s = None)"
proof -
  have series: "add_series_to_chart sheet range_str n [] =
       concat (map (\<lambda>sub. case chart_sub_rect n sub of
                   None \<Rightarrow> []
                 | Some (r1, c1, r2, c2) \<Rightarrow>
                     map (\<lambda>col. \<lparr>series_name = (if r1 = 0 then Some (sheet, 0, col) else None),
                                  series_values = (sheet, if r1 = 0 then 1 else r1, col, r2, col),
                                  series_categories = None\<rparr>)
                       [c1..c2])
               (tl (split_on (\<lambda>c. c = CHR ''/'') range_str)))"
    by (simp add: add_series_to_chart_eq add_data_series_def add_data_series_loop_eq assms(3)
        cong: option.case_cong prod.case_cong)
  have none: "\<forall>s \<in> set (add_series_to_chart sheet range_str n []). series_categories s = None"
    unfolding series by (auto split: option.splits)
  have ins: "chart_calls sheet (range_str, title, pos_row, pos_col, ty, xf, xt) n
           \<in> set (add_charts_to_worksheet chart_ok cc sheet n)"
    using assms(1,2,4) by (auto simp add: add_charts_to_worksheet_eq)
  show ?thesis
    using none series ins by (simp add: chart_series_calls anchor_calls)
qed

theorem malformed_category_sub_range_witness:
  "chart_sub_rect 5 (hd (split_on (\<lambda>c. c = CHR ''/'') ''x.1:E.1/1.2:E.3'')) = None
   \<and> (case chart_calls ''load'' (''x.1:E.1/1.2:E.3'', ''Load'', 2, 5, ''LINE'', [], []) 5 of
        (r, c, ch) \<Rightarrow> chart_type ch = ''line'')
   \<and> chart_calls ''load'' (''x.1:E.1/1.2:E.3'', ''Load'', 2, 5, ''LINE'', [], []) 5
        \<in> set (add_charts_to_worksheet (\<lambda>(r, c, ch). chart_type ch = ''line'')
                 (Map.empty(''load'' \<mapsto> [(''1.1:E.1/1.2:E.2'', ''First'', 2, 2, ''FOO'', [], []),
                                         (''x.1:E.1/1.2:E.3'', ''Load'', 2, 5, ''LINE'', [], [])]))
                 ''load'' 5)
   \<and> chart_series (snd (snd (chart_calls ''load''
          (''x.1:E.1/1.2:E.3'', ''Load'', 2, 5, ''LINE'', [], []) 5))) =
     [\<lparr>series_name = Some (''load'', 0, 1), series_values = (''load'', 1, 1, 4, 1),
        series_categories = None\<rparr>,
      \<lparr>series_name = Some (''load'', 0, 2), series_values = (''load'', 1, 2, 4, 2),
        series_categories = None\<rparr>]"
proof -
  let ?cc = "Map.empty(''load'' \<mapsto> [(''1.1:E.1/1.2:E.2'', ''First'', 2::int, 2::int, ''FOO'', [], []),
                                    (''x.1:E.1/1.2:E.3'', ''Load'', 2, 5, ''LINE'', [], [])])"
  have c: "?cc ''load'' = Some [(''1.1:E.1/1.2:E.2'', ''First'', 2, 2, ''FOO'', [], []),
                              (''x.1:E.1/1.2:E.3'', ''Load'', 2, 5, ''LINE'', [], [])]"
    by simp
  have m: "(''x.1:E.1/1.2:E.3'', ''Load'', 2::int, 5::int, ''LINE'', [], [])
             \<in> set [(''1.1:E.1/1.2:E.2'', ''First'', 2, 2, ''FOO'', [], []),
                     (''x.1:E.1/1.2:E.3'', ''Load'', 2, 5, ''LINE'', [], [])]"
    by simp
  have h: "chart_sub_rect 5 (hd (split_on (\<lambda>c. c = CHR ''/'') ''x.1:E.1/1.2:E.3'')) = None"
    by (simp add: eval_simps)
  have ok: "(\<lambda>(r, c, ch). chart_type ch = ''line'')
              (chart_calls ''load'' (''x.1:E.1/1.2:E.3'', ''Load'', 2, 5, ''LINE'', [], []) 5)"
    by (simp add: chart_calls_def configure_chart_properties_def Let_def
          py_lower_def py_lower_char_def char_of_def bit_Suc_0_iff)
  show ?thesis
    using h ok
      malformed_category_sub_range
        [where cc = ?cc and sheet = "''load''"
           and chart_ok = "\<lambda>(r, c, ch). chart_type ch = ''line''", OF c m h ok]
    by (simp add: eval_simps upto_first)
qed

lemma create_format_objects_keeps:
  "ini_chart_config (create_format_objects_for_current_sheet st) = ini_chart_config st"
  "current_sheet_name (create_format_objects_for_current_sheet st) = current_sheet_name st"
  "ini_format_config (create_format_objects_for_current_sheet st) = ini_format_config st"
  by (simp_all add: create_format_objects_for_current_sheet_def split: option.splits)

lemma write_table_charts:
  assumes "write_table_data_to_worksheet True chart_ok st table_data = Inr (st', Some ws)"
  shows "ws_charts ws =
           add_charts_to_worksheet chart_ok (ini_chart_config st) (current_sheet_name st)
             (length table_data)"
  using assms
  by (auto simp add: write_table_data_to_worksheet_def Let_def create_format_objects_keeps
        split: sum.splits)

lemma write_table_written:
  assumes "write_rows_loop (ini_format_config st)
             (excel_format_cache (create_format_objects_for_current_sheet st))
             (current_sheet_name st) 0 table_data [] = Inr cells"
  shows "write_table_data_to_worksheet True chart_ok st table_data =
           Inr (create_format_objects_for_current_sheet st,
                Some \<lparr>ws_cells = cells,
                      ws_charts = add_charts_to_worksheet chart_ok (ini_chart_config st)
                                    (current_sheet_name st) (length table_data)\<rparr>)"
  using assms
  by (simp add: write_table_data_to_worksheet_def Let_def create_format_objects_keeps)

text \<open>
  Claim C1, as amended. Take a sheet whose only CHART rule has the range spec
  \<^verbatim>\<open>1.1:3.1/1.2:3.2\<close>, a table whose cells are all written (so one of 3 rows and 2
  columns with text and finite numbers), and a library that carries out the calls of
  the rule's chart. The sheet gets exactly one chart with exactly one series. Its
  categories are column 1, rows 1 to 3 in 1-based coordinates (rows 0 to 2 of column 0
  here). The 1-based start row 1 of the value rectangle is row 0 in 0-based
  coordinates, so the series is named by the header cell of column 2 and its values
  are rows 2 to 3 of column 2 in 1-based coordinates (rows 1 to 2 of column 1 here).
\<close>

theorem chart_scenario:
  assumes "ini_chart_config st (current_sheet_name st) =
             Some [(''1.1:3.1/1.2:3.2'', title, pos_row, pos_col, ty, xf, xt)]"
      and "write_table_data_to_worksheet True chart_ok st table_data = Inr (st', Some ws)"
      and "chart_ok (chart_calls (current_sheet_name st)
                       (''1.1:3.1/1.2:3.2'', title, pos_row, pos_col, ty, xf, xt)
                       (length table_data))"
  shows "\<exists>ch. ws_charts ws = [(pos_row - 1, pos_col - 1, ch)]
       \<and> chart_series ch =
           [\<lparr>series_name = Some (current_sheet_name st, 0, 1),
              series_values = (current_sheet_name st, 1, 1, 2, 1),
              series_categories = Some (current_sheet_name st, 0, 0, 2, 0)\<rparr>]"
proof -
  let ?calls = "chart_calls (current_sheet_name st)
                  (''1.1:3.1/1.2:3.2'', title, pos_row, pos_col, ty, xf, xt) (length table_data)"
  have s: "add_series_to_chart (current_sheet_name st) ''1.1:3.1/1.2:3.2'' (length table_data) [] =
           [\<lparr>series_name = Some (current_sheet_name st, 0, 1),
              series_values = (current_sheet_name st, 1, 1, 2, 1),
              series_categories = Some (current_sheet_name st, 0, 0, 2, 0)\<rparr>]"
    by (simp add: add_series_to_chart_eq add_data_series_def add_data_series_loop_eq
          four_ints_def chart_sub_rect_def py_strip_def py_rstrip_def py_lstrip_def
          py_int_def digitpart_def is_digit_def is_space_def is_num_space_def digits_value_def
          Let_def upto_first)
  have w: "ws_charts ws = [?calls]"
    using write_table_charts [OF assms(2)] assms(1,3)
    by (simp add: add_charts_to_worksheet_eq)
  obtain r c ch where t: "?calls = (r, c, ch)"
    by (cases ?calls) auto
  have "r = pos_row - 1" "c = pos_col - 1" "chart_series ch = add_series_to_chart
          (current_sheet_name st) ''1.1:3.1/1.2:3.2'' (length table_data) []"
    using t anchor_calls [of "current_sheet_name st" "''1.1:3.1/1.2:3.2''" title pos_row pos_col
                             ty xf xt "length table_data"]
      chart_series_calls [of "current_sheet_name st" "''1.1:3.1/1.2:3.2''" title pos_row pos_col
                             ty xf xt "length table_data"]
    by simp_all
  then show ?thesis
    using w t s by simp
qed

text \<open>The equations that evaluate the type tests and the strict date parsers on a given text.\<close>

lemmas type_simps = is_date_string_def date_pattern_match_def is_numeric_string_def py_float_def
  float_syntax_def floatnumber_ok_def exponent_ok_def digitpart_def is_digit_def is_num_space_def
  py_strip_def py_rstrip_def py_lstrip_def py_lower_def py_lower_char_def char_of_def bit_Suc_0_iff
  write_number_def decimal_of_literal_def decimal_overflows_def DBL_OVERFLOW_def
  write_date_value_def convert_date_to_excel_format_def py_endswith_def
  strptime_date_def strptime_datetime_def re_Y_def re_m_def re_d_def re_H_def re_M_def re_S_def
  re_lit_def two_digits_def one_digit_def in_chars_def digits_value_def
  valid_date_def days_in_month_def is_leap_def Let_def

text \<open>The cells of the table used in the examples below, as they are written.\<close>

lemma example_table_written:
  "write_rows_loop Map.empty {} ''load'' 0
     [[''Name'', ''Value''], [''a'', ''1,234''], [''b'', ''2,345'']] [] =
   Inr [Write_string 0 0 ''Name'' String_format, Write_string 0 1 ''Value'' String_format,
        Write_string 1 0 ''a'' String_format,
        Write_number 1 1 (Float_of_literal ''1234'') Number_format,
        Write_string 2 0 ''b'' String_format,
        Write_number 2 1 (Float_of_literal ''2345'') Number_format]"
  by (simp add: check_cell_has_custom_format_def write_cell_value_def type_simps)

theorem chart_scenario_witness:
  "(case chart_calls ''load'' (''1.1:3.1/1.2:3.2'', ''Load'', 2, 5, ''LINE'', [], []) 3 of
      (r, c, ch) \<Rightarrow> chart_type ch = ''line'')
   \<and> (\<exists>st' ws ch.
        write_table_data_to_worksheet True (\<lambda>(r, c, ch). chart_type ch = ''line'')
          \<lparr>ini_format_config = Map.empty,
           ini_chart_config = Map.empty(''load'' \<mapsto> [(''1.1:3.1/1.2:3.2'', ''Load'', 2, 5, ''LINE'', [], [])]),
           excel_format_cache = {}, current_sheet_name = ''load''\<rparr>
          [[''Name'', ''Value''], [''a'', ''1,234''], [''b'', ''2,345'']] = Inr (st', Some ws)
        \<and> ws_charts ws = [(1, 4, ch)]
        \<and> chart_series ch =
            [\<lparr>series_name = Some (''load'', 0, 1), series_values = (''load'', 1, 1, 2, 1),
               series_categories = Some (''load'', 0, 0, 2, 0)\<rparr>])"
proof -
  let ?st = "\<lparr>ini_format_config = Map.empty,
      ini_chart_config = Map.empty(''load'' \<mapsto> [(''1.1:3.1/1.2:3.2'', ''Load'', 2::int, 5::int, ''LINE'', [], [])]),
      excel_format_cache = {}, current_sheet_name = ''load''\<rparr>"
  let ?table = "[[''Name'', ''Value''], [''a'', ''1,234''], [''b'', ''2,345'']]"
  let ?ok = "\<lambda>(r :: int, c :: int, ch). chart_type ch = ''line''"
  have h1: "ini_chart_config ?st (current_sheet_name ?st) =
     Some [(''1.1:3.1/1.2:3.2'', ''Load'', 2, 5, ''LINE'', [], [])]"
    by simp
  have rows: "write_rows_loop (ini_format_config ?st)
             (excel_format_cache (create_format_objects_for_current_sheet ?st))
             (current_sheet_name ?st) 0 ?table [] =
      Inr [Write_string 0 0 ''Name'' String_format, Write_string 0 1 ''Value'' String_format,
        Write_string 1 0 ''a'' String_format,
        Write_number 1 1 (Float_of_literal ''1234'') Number_format,
        Write_string 2 0 ''b'' String_format,
        Write_number 2 1 (Float_of_literal ''2345'') Number_format]"
    using example_table_written by (simp add: create_format_objects_for_current_sheet_def)
  note h2 = write_table_written [OF rows, of ?ok]
  have h3: "?ok (chart_calls (current_sheet_name ?st)
                   (''1.1:3.1/1.2:3.2'', ''Load'', 2, 5, ''LINE'', [], []) (length ?table))"
    by (simp add: chart_calls_def configure_chart_properties_def Let_def
          py_lower_def py_lower_char_def char_of_def bit_Suc_0_iff)
  let ?ws = "\<lparr>ws_cells = [Write_string 0 0 ''Name'' String_format, Write_string 0 1 ''Value'' String_format,
        Write_string 1 0 ''a'' String_format,
        Write_number 1 1 (Float_of_literal ''1234'') Number_format,
        Write_string 2 0 ''b'' String_format,
        Write_number 2 1 (Float_of_literal ''2345'') Number_format],
       ws_charts = add_charts_to_worksheet ?ok (ini_chart_config ?st) (current_sheet_name ?st)
                     (length ?table)\<rparr>"
  from chart_scenario [OF h1 h2 h3] obtain ch where
    c: "ws_charts ?ws = [(2 - 1, 5 - 1, ch)]"
       "chart_series ch =
            [\<lparr>series_name = Some (current_sheet_name ?st, 0, 1),
               series_values = (current_sheet_name ?st, 1, 1, 2, 1),
               series_categories = Some (current_sheet_name ?st, 0, 0, 2, 0)\<rparr>]"
    by blast
  have e: "write_table_data_to_worksheet True ?ok ?st ?table =
             Inr (create_format_objects_for_current_sheet ?st, Some ?ws)
           \<and> ws_charts ?ws = [(1, 4, ch)]
           \<and> chart_series ch =
            [\<lparr>series_name = Some (''load'', 0, 1), series_values = (''load'', 1, 1, 2, 1),
               series_categories = Some (''load'', 0, 0, 2, 0)\<rparr>]"
    using h2 c by simp
  have f: "case chart_calls ''load'' (''1.1:3.1/1.2:3.2'', ''Load'', 2, 5, ''LINE'', [], []) 3 of
      (r, c, ch) \<Rightarrow> chart_type ch = ''line''"
    using h3 by (simp add: numeral_3_eq_3)
  show ?thesis
    using e f by blast
qed

text \<open>
  The scenario of claim C1 on a concrete table and directive, with a library that
  carries out the calls of line charts: the series has a name taken from the header
  row and its values start one row below the rectangle's first row, which is not the
  series the claim describes.
\<close>

theorem chart_scenario_counterexample:
  "(case write_table_data_to_worksheet True (\<lambda>(r, c, ch). chart_type ch = ''line'')
           ((load_lines [''CHART1=load,[1.1:3.1/1.2:3.2],ACTIVE,load,Load,2,5,LINE,TRUE,,'']
               \<lparr>ini_format_config = Map.empty, ini_chart_config = Map.empty,
                excel_format_cache = {}, current_sheet_name = []\<rparr>)
            \<lparr>current_sheet_name := ''load''\<rparr>)
           [[''Name'', ''Value''], [''a'', ''1,234''], [''b'', ''2,345'']] of
      Inl e \<Rightarrow> []
    | Inr (st', None) \<Rightarrow> []
    | Inr (st', Some ws) \<Rightarrow> map (\<lambda>(r, c, ch). chart_series ch) (ws_charts ws)) =
     [[\<lparr>series_name = Some (''load'', 0, 1), series_values = (''load'', 1, 1, 2, 1),
        series_categories = Some (''load'', 0, 0, 2, 0)\<rparr>]]
   \<and> [[\<lparr>series_name = Some (''load'', 0, 1), series_values = (''load'', 1, 1, 2, 1),
        series_categories = Some (''load'', 0, 0, 2, 0)\<rparr>]] \<noteq>
     [[\<lparr>series_name = None, series_values = (''load'', 0, 1, 2, 1),
        series_categories = Some (''load'', 0, 0, 2, 0)\<rparr>]]"
proof -
  let ?st = "\<lparr>ini_format_config = Map.empty,
      ini_chart_config = Map.empty(''load'' \<mapsto> [(''1.1:3.1/1.2:3.2'', ''Load'', 2::int, 5::int, ''LINE'', [], [])]),
      excel_format_cache = {}, current_sheet_name = ''load''\<rparr>"
  let ?table = "[[''Name'', ''Value''], [''a'', ''1,234''], [''b'', ''2,345'']]"
  have cfg: "(load_lines [''CHART1=load,[1.1:3.1/1.2:3.2],ACTIVE,load,Load,2,5,LINE,TRUE,,'']
                   \<lparr>ini_format_config = Map.empty, ini_chart_config = Map.empty,
                    excel_format_cache = {}, current_sheet_name = []\<rparr>)
              \<lparr>current_sheet_name := ''load''\<rparr> = ?st"
    by (simp add: load_simps)
  have rows: "write_rows_loop (ini_format_config ?st)
             (excel_format_cache (create_format_objects_for_current_sheet ?st))
             (current_sheet_name ?st) 0 ?table [] =
      Inr [Write_string 0 0 ''Name'' String_format, Write_string 0 1 ''Value'' String_format,
        Write_string 1 0 ''a'' String_format,
        Write_number 1 1 (Float_of_literal ''1234'') Number_format,
        Write_string 2 0 ''b'' String_format,
        Write_number 2 1 (Float_of_literal ''2345'') Number_format]"
    using example_table_written by (simp add: create_format_objects_for_current_sheet_def)
  show ?thesis
    unfolding cfg write_table_written [OF rows]
    by (simp add: add_charts_to_worksheet_eq chart_calls_def configure_chart_properties_def
          eval_simps add_series_to_chart_eq add_data_series_loop_eq upto_first
          py_lower_def py_lower_char_def char_of_def bit_Suc_0_iff)
qed

section \<open>FORMAT rules: the first covering rule\<close>

lemma check_rules_step:
  "check_rules (q # rest) (int row + 1) (int col + 1) =
     (if covers q row col then (True, snd (snd (snd (snd q))))
      else check_rules rest (int row + 1) (int col + 1))"
  by (cases q) (simp add: covers_def)

lemma check_rules_first:
  assumes "\<forall>q \<in> set earlier. \<not> covers q row col"
      and "covers (r1, c1, r2, c2, fmt) row col"
  shows "check_rules (earlier @ (r1, c1, r2, c2, fmt) # later) (int row + 1) (int col + 1) = (True, fmt)"
  using assms by (induction earlier) (simp_all add: check_rules_step del: check_rules.simps)

lemma parse_format_configuration_extends:
  assumes "fc sheet = Some rules"
  shows "\<exists>more. parse_format_configuration line fc sheet = Some (rules @ more)"
  using assms by (auto simp: parse_format_configuration_def Let_def)

lemma load_lines_extends:
  "ini_format_config st sheet = Some rules \<Longrightarrow>
   \<exists>more. ini_format_config (load_lines lines st) sheet = Some (rules @ more)"
proof (induction lines arbitrary: st rules)
  case Nil
  then show ?case by simp
next
  case (Cons raw lines)
  let ?line = "py_rstrip (\<lambda>c. c = CHR 0x0D \<or> c = CHR 0x0A) (py_strip is_space raw)"
  from parse_format_configuration_extends
         [where fc = "ini_format_config st" and sheet = sheet, OF Cons.prems, of ?line]
  obtain more where m: "parse_format_configuration ?line (ini_format_config st) sheet = Some (rules @ more)"
    by blast
  have a: "\<exists>more'. ini_format_config (load_lines lines
              (st\<lparr>ini_format_config := parse_format_configuration ?line (ini_format_config st)\<rparr>)) sheet
            = Some (rules @ more')"
    using Cons.IH [of "st\<lparr>ini_format_config := parse_format_configuration ?line (ini_format_config st)\<rparr>"
                     "rules @ more"] m by auto
  have b: "\<exists>more'. ini_format_config (load_lines lines
              (st\<lparr>ini_chart_config := parse_chart_configuration ?line (ini_chart_config st)\<rparr>)) sheet
            = Some (rules @ more')"
    using Cons.IH [of "st\<lparr>ini_chart_config := parse_chart_configuration ?line (ini_chart_config st)\<rparr>"
                     rules] Cons.prems by simp
  have c: "\<exists>more'. ini_format_config (load_lines lines st) sheet = Some (rules @ more')"
    by (rule Cons.IH [of st rules, OF Cons.prems])
  show ?case
    using a b c by (simp add: Let_def)
qed

text \<open>
  Claim C4. The rules of a sheet are kept in the order of their declaration. When a
  rule's rectangle holds a cell and no rule declared before it does, the format
  resolved for the cell is that rule's, whatever rules follow it in the list, and
  whatever further directives are loaded after it.
\<close>

theorem first_declared_rule_wins:
  assumes "ini_format_config st sheet = Some (earlier @ (r1, c1, r2, c2, fmt) # later)"
      and "covers (r1, c1, r2, c2, fmt) row col"
      and "\<forall>q \<in> set earlier. \<not> covers q row col"
  shows "check_cell_has_custom_format (ini_format_config st) sheet row col = (True, fmt)
       \<and> check_cell_has_custom_format (ini_format_config (load_lines lines st)) sheet row col
           = (True, fmt)"
proof -
  from load_lines_extends [of st sheet _ lines, OF assms(1)] obtain more where
    m: "ini_format_config (load_lines lines st) sheet
          = Some ((earlier @ (r1, c1, r2, c2, fmt) # later) @ more)"
    by blast
  have "check_rules (earlier @ (r1, c1, r2, c2, fmt) # (later @ more)) (int row + 1) (int col + 1)
          = (True, fmt)"
    by (rule check_rules_first [OF assms(3) assms(2)])
  then show ?thesis
    using m assms(1) check_rules_first [OF assms(3) assms(2), of later]
    by (simp add: check_cell_has_custom_format_def)
qed

theorem first_declared_rule_wins_witness:
  "check_cell_has_custom_format
     (ini_format_config
        (load_lines [''FORMAT1=load^[7.7:8.8]^0'', ''FORMAT2=load^[1.1:5.5]^0.0'',
                    ''FORMAT2=load^[2.2:E.9]^0.00'']
           \<lparr>ini_format_config = Map.empty, ini_chart_config = Map.empty,
            excel_format_cache = {}, current_sheet_name = []\<rparr>))
     ''load'' 2 2 = (True, ''0.0'')
   \<and> check_cell_has_custom_format
     (ini_format_config
        (load_lines [''FORMAT3=load^[3.3:3.3]^#,##0'']
           (load_lines [''FORMAT1=load^[7.7:8.8]^0'', ''FORMAT2=load^[1.1:5.5]^0.0'',
                    ''FORMAT2=load^[2.2:E.9]^0.00'']
              \<lparr>ini_format_config = Map.empty, ini_chart_config = Map.empty,
               excel_format_cache = {}, current_sheet_name = []\<rparr>)))
     ''load'' 2 2 = (True, ''0.0'')"
proof -
  let ?st = "load_lines [''FORMAT1=load^[7.7:8.8]^0'', ''FORMAT2=load^[1.1:5.5]^0.0'',
                    ''FORMAT2=load^[2.2:E.9]^0.00'']
           \<lparr>ini_format_config = Map.empty, ini_chart_config = Map.empty,
            excel_format_cache = {}, current_sheet_name = []\<rparr>"
  have cfg: "ini_format_config ?st ''load'' =
      Some ([(7, 7, 8, 8, ''0'')] @ (1, 1, 5, 5, ''0.0'') # [(2, 2, 65535, 9, ''0.00'')])"
    by (simp add: load_simps parse_excel_cell_range_def MAX_EXCEL_ROWS_def py_str.simps)
  have c: "covers (1, 1, 5, 5, ''0.0'') 2 2"
    by (simp add: covers_def)
  have e: "\<forall>q \<in> set [(7, 7, 8, 8, ''0'')]. \<not> covers q 2 2"
    by (simp add: covers_def)
  show ?thesis
    using first_declared_rule_wins [of ?st "''load''", OF cfg c e, of "[''FORMAT3=load^[3.3:3.3]^#,##0'']"]
    by simp
qed

section \<open>The placeholder for the last row\<close>

lemma split_on_prefix:
  "\<forall>c \<in> set xs. \<not> P c \<Longrightarrow>
   split_on P (xs @ t) = (xs @ hd (split_on P t)) # tl (split_on P t)"
proof (induction xs)
  case Nil
  show ?case using split_on_not_Nil [of P t] by simp
next
  case (Cons x xs)
  then show ?case by simp
qed

lemma split_on_replace:
  assumes "\<not> P old" and "\<forall>c \<in> set new. \<not> P c"
  shows "split_on P (py_replace old new s) = map (py_replace old new) (split_on P s)"
proof (induction s)
  case Nil
  show ?case by simp
next
  case (Cons c s)
  obtain w ws where w: "split_on P s = w # ws"
    using split_on_not_Nil [of P s] by (cases "split_on P s") auto
  show ?case
  proof (cases "c = old")
    case True
    show ?thesis
      using assms Cons.IH w by (simp add: True split_on_prefix)
  next
    case False
    show ?thesis
      using assms Cons.IH w by (simp add: False)
  qed
qed

lemma py_replace_absent: "old \<notin> set s \<Longrightarrow> py_replace old new s = s"
  by (induction s) auto

lemma py_replace_removes: "old \<notin> set new \<Longrightarrow> old \<notin> set (py_replace old new s)"
  by (induction s) auto

lemma py_str_digits: "set (py_str n) \<subseteq> set ''0123456789''"
proof (induction n rule: py_str.induct)
  case (1 n)
  have d: "\<And>k. k < 10 \<Longrightarrow> ''0123456789'' ! k \<in> set ''0123456789''"
    by (rule nth_mem) simp
  show ?case
  proof (cases "n < 10")
    case True
    then show ?thesis
      using d [of n] by (subst py_str.simps) simp
  next
    case False
    have "n mod 10 < 10" by simp
    then show ?thesis
      using False "1.IH" d [of "n mod 10"] by (subst py_str.simps) simp
  qed
qed

lemma py_str_no_E: "CHR ''E'' \<notin> set (py_str n)"
  using py_str_digits [of n] by auto

lemma py_str_no_slash: "\<forall>c \<in> set (py_str n). \<not> c = CHR ''/''"
  using py_str_digits [of n] by auto

lemma chart_sub_rect_replaced:
  "chart_sub_rect k (py_replace (CHR ''E'') (py_str n) sub) = chart_sub_rect n sub"
  by (simp add: chart_sub_rect_def py_replace_absent py_replace_removes py_str_no_E)

lemma add_series_to_chart_replaced:
  "add_series_to_chart sheet (py_replace (CHR ''E'') (py_str n) range_str) k chart =
   add_series_to_chart sheet range_str n chart"
proof -
  have sp: "split_on (\<lambda>c. c = CHR ''/'') (py_replace (CHR ''E'') (py_str n) range_str) =
        map (py_replace (CHR ''E'') (py_str n)) (split_on (\<lambda>c. c = CHR ''/'') range_str)"
    by (rule split_on_replace) (simp, rule py_str_no_slash)
  obtain w ws where w: "split_on (\<lambda>c. c = CHR ''/'') range_str = w # ws"
    using split_on_not_Nil [of "\<lambda>c. c = CHR ''/''" range_str]
    by (cases "split_on (\<lambda>c. c = CHR ''/'') range_str") auto
  show ?thesis
    by (simp add: add_series_to_chart_eq sp w chart_sub_rect_replaced comp_def
          cong: option.case_cong)
qed

lemma chart_calls_replaced:
  "chart_calls sheet (py_replace (CHR ''E'') (py_str n) range_str, rest) k =
   chart_calls sheet (range_str, rest) n"
  by (cases rest) (simp add: chart_calls_def add_series_to_chart_replaced Let_def
        split: prod.splits)

lemma sentinel_digits: "py_str MAX_EXCEL_ROWS = ''65535''"
  by (simp add: MAX_EXCEL_ROWS_def py_str.simps)

text \<open>
  Claim C3. A FORMAT directive is parsed with every \<^verbatim>\<open>E\<close> of its range spec replaced by
  the digits \<^verbatim>\<open>65535\<close> of the fixed constant, whatever table is extracted later (the
  parser has no access to one). The series of a chart on a table of \<open>n\<close> rows are those
  of the range spec with every \<^verbatim>\<open>E\<close> replaced by the digits of \<open>n\<close>: after that
  replacement the row count \<open>k\<close> given to the chart builder is immaterial. When a
  sheet is written, its charts are those that the library carries out among the charts
  of its CHART rules with every \<^verbatim>\<open>E\<close> replaced by the number of rows of the sheet's
  table.
\<close>

theorem to_end_token_resolution:
  "(4 \<le> length (split_on (\<lambda>c. c = CHR ''='' \<or> c = CHR ''^'') line) \<longrightarrow>
      parse_format_configuration line fc =
        fc(split_on (\<lambda>c. c = CHR ''='' \<or> c = CHR ''^'') line ! 1 \<mapsto>
             (case fc (split_on (\<lambda>c. c = CHR ''='' \<or> c = CHR ''^'') line ! 1) of
                None \<Rightarrow> [] | Some rs \<Rightarrow> rs) @
             parse_excel_cell_range
               (py_replace (CHR ''E'') ''65535''
                  (py_strip (\<lambda>c. c \<in> set ''[]'')
                     (split_on (\<lambda>c. c = CHR ''='' \<or> c = CHR ''^'') line ! 2)))
               (split_on (\<lambda>c. c = CHR ''='' \<or> c = CHR ''^'') line ! 3)))
   \<and> add_series_to_chart sheet range_str n chart =
       add_series_to_chart sheet (py_replace (CHR ''E'') (py_str n) range_str) k chart
   \<and> (write_table_data_to_worksheet True chart_ok st table_data = Inr (st', Some ws) \<longrightarrow>
        ws_charts ws =
          (case ini_chart_config st (current_sheet_name st) of
             None \<Rightarrow> []
           | Some configs \<Rightarrow>
               filter chart_ok
                 (map (\<lambda>(range_str, rest).
                        chart_calls (current_sheet_name st)
                          (py_replace (CHR ''E'') (py_str (length table_data)) range_str, rest) k)
                    configs)))"
proof -
  have "ws_charts ws =
          (case ini_chart_config st (current_sheet_name st) of
             None \<Rightarrow> []
           | Some configs \<Rightarrow>
               filter chart_ok
                 (map (\<lambda>(range_str, rest).
                        chart_calls (current_sheet_name st)
                          (py_replace (CHR ''E'') (py_str (length table_data)) range_str, rest) k)
                    configs))"
    if w: "write_table_data_to_worksheet True chart_ok st table_data = Inr (st', Some ws)"
  proof -
    have "(\<lambda>(range_str, rest).
             chart_calls (current_sheet_name st)
               (py_replace (CHR ''E'') (py_str (length table_data)) range_str, rest) k) =
          (\<lambda>chart_config. chart_calls (current_sheet_name st) chart_config (length table_data))"
      by (auto simp add: chart_calls_replaced fun_eq_iff)
    then show ?thesis
      using write_table_charts [OF w]
      by (simp add: add_charts_to_worksheet_eq split: option.splits)
  qed
  then show ?thesis
    by (simp add: parse_format_configuration_def Let_def sentinel_digits
          add_series_to_chart_replaced)
qed

theorem to_end_token_resolution_witness:
  "4 \<le> length (split_on (\<lambda>c. c = CHR ''='' \<or> c = CHR ''^'') ''FORMAT1=load^[1.3:E.36]^###,##0'')
   \<and> parse_format_configuration ''FORMAT1=load^[1.3:E.36]^###,##0'' Map.empty =
       Map.empty(''load'' \<mapsto> [(1, 3, 65535, 36, ''###,##0'')])
   \<and> add_series_to_chart ''load'' ''2.1:E.1/2.2:E.2'' 3 [] =
       add_series_to_chart ''load'' ''2.1:3.1/2.2:3.2'' 0 []
   \<and> (\<exists>st' ws.
        write_table_data_to_worksheet True (\<lambda>(r, c, ch). chart_type ch = ''line'')
          \<lparr>ini_format_config = Map.empty,
           ini_chart_config = Map.empty(''load'' \<mapsto> [(''2.1:E.1/2.2:E.2'', ''Load'', 2, 5, ''LINE'', [], []),
                                                   (''2.1:E.1/2.2:E.2'', ''Other'', 2, 9, ''FOO'', [], [])]),
           excel_format_cache = {}, current_sheet_name = ''load''\<rparr>
          [[''Name'', ''Value''], [''a'', ''1,234''], [''b'', ''2,345'']] = Inr (st', Some ws)
        \<and> map (\<lambda>(r, c, ch). chart_series ch) (ws_charts ws) =
            [[\<lparr>series_name = None, series_values = (''load'', 1, 1, 2, 1),
                series_categories = Some (''load'', 1, 0, 2, 0)\<rparr>]])"
proof -
  let ?st = "\<lparr>ini_format_config = Map.empty,
           ini_chart_config = Map.empty(''load'' \<mapsto> [(''2.1:E.1/2.2:E.2'', ''Load'', 2::int, 5::int, ''LINE'', [], []),
                                                   (''2.1:E.1/2.2:E.2'', ''Other'', 2, 9, ''FOO'', [], [])]),
           excel_format_cache = {}, current_sheet_name = ''load''\<rparr>"
  let ?table = "[[''Name'', ''Value''], [''a'', ''1,234''], [''b'', ''2,345'']]"
  let ?ok = "\<lambda>(r :: int, c :: int, ch). chart_type ch = ''line''"
  have h: "4 \<le> length (split_on (\<lambda>c. c = CHR ''='' \<or> c = CHR ''^'') ''FORMAT1=load^[1.3:E.36]^###,##0'')"
    by simp
  have r: "py_str (length ?table) = ''3''" "py_str 3 = ''3''"
    by (simp_all add: py_str.simps)
  have rows: "write_rows_loop (ini_format_config ?st)
             (excel_format_cache (create_format_objects_for_current_sheet ?st))
             (current_sheet_name ?st) 0 ?table [] =
      Inr [Write_string 0 0 ''Name'' String_format, Write_string 0 1 ''Value'' String_format,
        Write_string 1 0 ''a'' String_format,
        Write_number 1 1 (Float_of_literal ''1234'') Number_format,
        Write_string 2 0 ''b'' String_format,
        Write_number 2 1 (Float_of_literal ''2345'') Number_format]"
    using example_table_written by (simp add: create_format_objects_for_current_sheet_def)
  let ?ws = "\<lparr>ws_cells = [Write_string 0 0 ''Name'' String_format, Write_string 0 1 ''Value'' String_format,
        Write_string 1 0 ''a'' String_format,
        Write_number 1 1 (Float_of_literal ''1234'') Number_format,
        Write_string 2 0 ''b'' String_format,
        Write_number 2 1 (Float_of_literal ''2345'') Number_format],
       ws_charts = add_charts_to_worksheet ?ok (ini_chart_config ?st) (current_sheet_name ?st)
                     (length ?table)\<rparr>"
  note w = write_table_written [OF rows, of ?ok]
  note t = to_end_token_resolution
      [of "''FORMAT1=load^[1.3:E.36]^###,##0''" Map.empty "''load''" "''2.1:E.1/2.2:E.2''" 3 "[]" 0
          ?ok ?st ?table "create_format_objects_for_current_sheet ?st" ?ws]
  have f: "parse_format_configuration ''FORMAT1=load^[1.3:E.36]^###,##0'' Map.empty =
       Map.empty(''load'' \<mapsto> [(1, 3, 65535, 36, ''###,##0'')])"
    using h t by (simp add: parse_excel_cell_range_def eval_simps)
  have s: "add_series_to_chart ''load'' ''2.1:E.1/2.2:E.2'' 3 [] =
       add_series_to_chart ''load'' ''2.1:3.1/2.2:3.2'' 0 []"
    using t by (simp add: r)
  have c: "map (\<lambda>(r, c, ch). chart_series ch) (ws_charts ?ws) =
            [[\<lparr>series_name = None, series_values = (''load'', 1, 1, 2, 1),
                series_categories = Some (''load'', 1, 0, 2, 0)\<rparr>]]"
    using t w
    by (simp add: r chart_calls_def configure_chart_properties_def eval_simps
          add_series_to_chart_eq add_data_series_loop_eq upto_first
          py_lower_def py_lower_char_def char_of_def bit_Suc_0_iff)
  have e: "\<exists>st' ws.
        write_table_data_to_worksheet True ?ok ?st ?table = Inr (st', Some ws)
        \<and> map (\<lambda>(r, c, ch). chart_series ch) (ws_charts ws) =
            [[\<lparr>series_name = None, series_values = (''load'', 1, 1, 2, 1),
                series_categories = Some (''load'', 1, 0, 2, 0)\<rparr>]]"
  proof (intro exI conjI)
    show "write_table_data_to_worksheet True ?ok ?st ?table =
            Inr (create_format_objects_for_current_sheet ?st, Some ?ws)"
      by (rule w)
    show "map (\<lambda>(r, c, ch). chart_series ch) (ws_charts ?ws) =
            [[\<lparr>series_name = None, series_values = (''load'', 1, 1, 2, 1),
                series_categories = Some (''load'', 1, 0, 2, 0)\<rparr>]]"
      by (rule c)
  qed
  show ?thesis
    by (intro conjI) (rule h, rule f, rule s, rule e)
qed

section \<open>CHART directives\<close>

text \<open>
  Claim C7, as amended. A CHART directive with fewer than 8 tokens is ignored. A
  directive with at least 8 tokens is accepted when its anchor row and anchor column
  tokens are integers, and ignored otherwise; the rule it adds takes the anchor row,
  the anchor column and the chart type from tokens 5, 6 and 7 as they are (no default
  is ever put in their place), and takes the X axis format and title from tokens 9
  and 10, or the empty text when the directive has no such token.
\<close>

theorem chart_directive_tokens:
  "(length (chart_tokens line) < 8 \<longrightarrow> parse_chart_configuration line cc = cc)
   \<and> (8 \<le> length (chart_tokens line) \<longrightarrow>
        parse_chart_configuration line cc =
          (case py_int (chart_tokens line ! 5) of
             None \<Rightarrow> cc
           | Some pr \<Rightarrow>
               (case py_int (chart_tokens line ! 6) of
                  None \<Rightarrow> cc
                | Some pc \<Rightarrow>
                    cc(chart_tokens line ! 0 \<mapsto>
                         (case cc (chart_tokens line ! 0) of None \<Rightarrow> [] | Some cs \<Rightarrow> cs) @
                         [(py_strip (\<lambda>c. c \<in> set ''[]'') (chart_tokens line ! 1),
                           chart_tokens line ! 4, pr, pc, chart_tokens line ! 7,
                           if 9 < length (chart_tokens line) then chart_tokens line ! 9 else [],
                           if 10 < length (chart_tokens line) then chart_tokens line ! 10 else [])]))))"
  by (cases "after_first (CHR ''='') line")
    (auto simp add: parse_chart_configuration_def chart_tokens_def Let_def split: option.splits)

theorem chart_directive_tokens_witness:
  "length (chart_tokens ''CHART2=load,[1.2:E.2/1.3:E.3],ACTIVE,load,Load'') < 8
   \<and> parse_chart_configuration ''CHART2=load,[1.2:E.2/1.3:E.3],ACTIVE,load,Load'' Map.empty = Map.empty
   \<and> 8 \<le> length (chart_tokens ''CHART1=load,[1.2:E.2/1.3:E.3],ACTIVE,load,Load,3,7,BAR'')
   \<and> parse_chart_configuration ''CHART1=load,[1.2:E.2/1.3:E.3],ACTIVE,load,Load,3,7,BAR'' Map.empty =
       Map.empty(''load'' \<mapsto> [(''1.2:E.2/1.3:E.3'', ''Load'', 3, 7, ''BAR'', [], [])])"
proof -
  have a: "length (chart_tokens ''CHART2=load,[1.2:E.2/1.3:E.3],ACTIVE,load,Load'') < 8"
    by (simp add: chart_tokens_def)
  have b: "8 \<le> length (chart_tokens ''CHART1=load,[1.2:E.2/1.3:E.3],ACTIVE,load,Load,3,7,BAR'')"
    by (simp add: chart_tokens_def)
  show ?thesis
    using a b
      chart_directive_tokens [of "''CHART2=load,[1.2:E.2/1.3:E.3],ACTIVE,load,Load''" Map.empty]
      chart_directive_tokens [of "''CHART1=load,[1.2:E.2/1.3:E.3],ACTIVE,load,Load,3,7,BAR''" Map.empty]
    by (simp add: chart_tokens_def load_simps)
qed

text \<open>
  No directive that lacks the anchor row, the anchor column or the chart type (fewer
  than 8 tokens) is accepted: the configuration is left as it was.
\<close>

theorem chart_defaults_counterexample:
  "\<not> (\<exists>line cc. length (chart_tokens line) < 8 \<and> parse_chart_configuration line cc \<noteq> cc)"
  by (auto simp add: parse_chart_configuration_def chart_tokens_def Let_def split: option.splits)

section \<open>Type inference: dates and numbers\<close>

lemma digit_not_num_space: "is_digit c \<Longrightarrow> \<not> is_num_space c"
  by (auto simp: is_digit_def is_num_space_def)

lemma digit_not_special:
  "is_digit c \<Longrightarrow> c \<noteq> CHR '','' \<and> c \<noteq> CHR '' '' \<and> c \<noteq> CHR ''+'' \<and> c \<noteq> CHR ''-''
     \<and> c \<noteq> CHR ''i'' \<and> c \<noteq> CHR ''n''"
  by (auto simp: is_digit_def)

lemma digit_lower: "is_digit c \<Longrightarrow> py_lower_char c = c"
  by (auto simp: is_digit_def py_lower_char_def)

lemma py_rstrip_Cons: "\<not> P x \<Longrightarrow> py_rstrip P (x # s) = x # py_rstrip P s"
  by (simp add: py_rstrip_def dropWhile_append3)

lemma py_strip_Cons: "\<not> P x \<Longrightarrow> py_strip P (x # s) = x # py_rstrip P s"
  by (simp add: py_strip_def py_lstrip_def py_rstrip_Cons)

lemma digits_rest_digit: "is_digit a \<Longrightarrow> digits_rest (a # b # cs) = digits_rest (b # cs)"
  by simp

lemma digits_rest_dash: "digits_rest (CHR ''-'' # t) = CHR ''-'' # t"
  by (cases t) (simp_all add: is_digit_def)

lemma dash_not_num_space: "\<not> is_num_space (CHR ''-'')"
  by (simp add: is_num_space_def)

lemma year_dash_not_float:
  assumes "is_digit y1" "is_digit y2" "is_digit y3" "is_digit y4"
  shows "py_float (y1 # y2 # y3 # y4 # CHR ''-'' # t) = None"
proof -
  have strip: "py_strip is_num_space (y1 # y2 # y3 # y4 # CHR ''-'' # t) =
        y1 # y2 # y3 # y4 # CHR ''-'' # py_rstrip is_num_space t"
    using assms
    by (simp add: py_strip_Cons py_rstrip_Cons digit_not_num_space dash_not_num_space)
  have dp: "digitpart (y1 # y2 # y3 # y4 # CHR ''-'' # u) = Some (CHR ''-'' # u)" for u
    using assms by (simp add: digitpart_def digits_rest_digit digits_rest_dash del: digits_rest.simps)
  have "\<not> float_syntax (y1 # y2 # y3 # y4 # CHR ''-'' # u)" for u
    using assms(1) digit_not_special [OF assms(1)]
    by (simp add: float_syntax_def floatnumber_ok_def dp exponent_ok_def py_lower_def digit_lower
          del: digits_rest.simps)
  then show ?thesis
    by (simp add: py_float_def strip)
qed

lemma date_not_numeric:
  assumes "date_pattern_match val"
  shows "py_float (py_replace (CHR '','') [] val) = None"
proof -
  from assms obtain y1 y2 y3 y4 t where
    v: "val = y1 # y2 # y3 # y4 # CHR ''-'' # t"
    and d: "is_digit y1" "is_digit y2" "is_digit y3" "is_digit y4"
    by (auto simp: date_pattern_match_def split: list.splits)
  have "py_replace (CHR '','') [] val =
          y1 # y2 # y3 # y4 # CHR ''-'' # py_replace (CHR '','') [] t"
    using d digit_not_special by (simp add: v)
  then show ?thesis
    using year_dash_not_float [OF d] by simp
qed

lemma date_string_not_numeric: "is_date_string val \<Longrightarrow> \<not> is_numeric_string val"
  by (auto simp: is_date_string_def is_numeric_string_def date_not_numeric split: if_splits)

lemma date_string_not_empty: "is_date_string val \<Longrightarrow> val \<noteq> []"
  by (auto simp: is_date_string_def)

lemma write_cell_value_date:
  "is_date_string val \<Longrightarrow>
   write_cell_value cache row 0 val hcf key = Inr (write_date_value row 0 val)"
  by (simp add: write_cell_value_def date_string_not_numeric date_string_not_empty)

lemma take_ten_date:
  assumes "date_pattern_match val"
  shows "take 10 (py_replace (CHR '' '') ''T'' val) = take 10 val"
proof -
  from assms obtain y1 y2 y3 y4 m1 m2 d1 d2 t where
    v: "val = y1 # y2 # y3 # y4 # CHR ''-'' # m1 # m2 # CHR ''-'' # d1 # d2 # t"
    and d: "is_digit y1" "is_digit y2" "is_digit y3" "is_digit y4"
           "is_digit m1" "is_digit m2" "is_digit d1" "is_digit d2"
    by (auto simp: date_pattern_match_def split: list.splits)
  show ?thesis
    using d digit_not_special by (simp add: v)
qed

lemma write_cell_value_date_branch:
  assumes "is_date_string val"
  shows "write_cell_value cache row 0 val hcf key =
           Inr (if length val > 10 \<and> \<not> py_endswith val '' 00:00:00'' then
                  (case strptime_datetime (take 19 (py_replace (CHR '' '') ''T'' val)) of
                     Some dt \<Rightarrow> Write_datetime row 0 dt Datetime_format
                   | None \<Rightarrow> Write_string row 0 val String_format)
                else
                  (case strptime_date (take 10 val) of
                     Some dt \<Rightarrow> Write_datetime row 0 dt Date_format
                   | None \<Rightarrow> Write_string row 0 val String_format))"
proof -
  have "date_pattern_match val"
    using assms by (simp add: is_date_string_def split: if_splits)
  then show ?thesis
    using assms
    by (simp add: write_cell_value_date write_date_value_def convert_date_to_excel_format_def
          Let_def take_ten_date)
qed

text \<open>
  Claim C5, as amended. A non-empty cell of column 0 whose text passes the date test
  goes to the date writer, whether or not a FORMAT rule covers it: no text passes both
  the date test and the numeric test, so the numeric test of a covering rule never
  takes such a cell. It is then written as a date with time or as a date when the
  strict parse of its text (of the first 19 characters with \<^verbatim>\<open>T\<close> for the spaces, or of
  the first 10 characters) succeeds, and as the text it is otherwise. A non-empty cell
  of another column whose text passes the numeric test and reads as a finite number is
  written as a number, in the covering rule's format when there is one and in the
  default number format otherwise; the date test is not applied there, so any other
  text of such a column is written as it is.
\<close>

theorem column_dispatch:
  "(is_date_string val \<longrightarrow>
      (length val > 10 \<and> \<not> py_endswith val '' 00:00:00'' \<longrightarrow>
         write_cell_value cache row 0 val hcf key =
           Inr (case strptime_datetime (take 19 (py_replace (CHR '' '') ''T'' val)) of
                  Some dt \<Rightarrow> Write_datetime row 0 dt Datetime_format
                | None \<Rightarrow> Write_string row 0 val String_format))
      \<and> (\<not> (length val > 10 \<and> \<not> py_endswith val '' 00:00:00'') \<longrightarrow>
         write_cell_value cache row 0 val hcf key =
           Inr (case strptime_date (take 10 val) of
                  Some dt \<Rightarrow> Write_datetime row 0 dt Date_format
                | None \<Rightarrow> Write_string row 0 val String_format)))
   \<and> (0 < col \<and> is_numeric_string val \<longrightarrow>
      (\<exists>num_value. py_float (py_replace (CHR '','') [] val) = Some num_value
         \<and> (\<not> float_non_finite num_value \<longrightarrow>
              write_cell_value cache row col val hcf key =
                Inr (Write_number row col num_value
                       (if hcf \<and> key \<in> cache then Cached_format key else Number_format)))))
   \<and> (0 < col \<and> val \<noteq> [] \<and> \<not> is_numeric_string val \<longrightarrow>
      write_cell_value cache row col val hcf key = Inr (Write_string row col val String_format))"
proof -
  have b: "\<exists>num_value. py_float (py_replace (CHR '','') [] val) = Some num_value
         \<and> (\<not> float_non_finite num_value \<longrightarrow>
              write_cell_value cache row col val hcf key =
                Inr (Write_number row col num_value
                       (if hcf \<and> key \<in> cache then Cached_format key else Number_format)))"
    if "0 < col" "is_numeric_string val"
    using that
    by (auto simp add: write_cell_value_def write_number_def is_numeric_string_def Let_def
          split: option.splits if_splits)
  have c: "write_cell_value cache row col val hcf key = Inr (Write_string row col val String_format)"
    if "0 < col" "val \<noteq> []" "\<not> is_numeric_string val"
    using that by (simp add: write_cell_value_def)
  show ?thesis
    using b c by (simp add: write_cell_value_date_branch)
qed

theorem column_dispatch_witness:
  "is_date_string ''2021-01-26 19:30:00''
   \<and> write_cell_value {''0.0''} 3 0 ''2021-01-26 19:30:00'' True ''0.0'' =
       Inr (Write_datetime 3 0 (2021, 1, 26, 19, 30, 0) Datetime_format)
   \<and> is_date_string ''2021-01-26''
   \<and> write_cell_value {''0.0''} 3 0 ''2021-01-26'' True ''0.0'' =
       Inr (Write_datetime 3 0 (2021, 1, 26, 0, 0, 0) Date_format)
   \<and> (0::nat) < 2 \<and> is_numeric_string ''1,234.5''
   \<and> \<not> float_non_finite (Float_of_literal ''1234.5'')
   \<and> write_cell_value {''0.0''} 3 2 ''1,234.5'' True ''0.0'' =
       Inr (Write_number 3 2 (Float_of_literal ''1234.5'') (Cached_format ''0.0''))
   \<and> write_cell_value {} 3 2 ''1,234.5'' False [] =
       Inr (Write_number 3 2 (Float_of_literal ''1234.5'') Number_format)
   \<and> ''n/a'' \<noteq> [] \<and> \<not> is_numeric_string ''n/a''
   \<and> write_cell_value {} 3 2 ''n/a'' False [] = Inr (Write_string 3 2 ''n/a'' String_format)"
proof -
  have d: "is_date_string ''2021-01-26 19:30:00''" "is_date_string ''2021-01-26''"
    by (simp_all add: type_simps)
  have n: "(0::nat) < 2 \<and> is_numeric_string ''1,234.5''"
    by (simp add: type_simps)
  have f: "py_float (py_replace (CHR '','') [] ''1,234.5'') = Some (Float_of_literal ''1234.5'')"
    by (simp add: type_simps)
  have g: "\<not> float_non_finite (Float_of_literal ''1234.5'')"
    by (simp add: type_simps)
  have t: "''n/a'' \<noteq> [] \<and> \<not> is_numeric_string ''n/a''"
    by (simp add: type_simps)
  have p: "strptime_datetime (take 19 (py_replace (CHR '' '') ''T'' ''2021-01-26 19:30:00'')) =
             Some (2021, 1, 26, 19, 30, 0)"
          "strptime_date (take 10 ''2021-01-26'') = Some (2021, 1, 26, 0, 0, 0)"
    by (simp_all add: type_simps)
  show ?thesis
    using d n f g t p
      column_dispatch [of "''2021-01-26 19:30:00''" "{''0.0''}" 3 True "''0.0''" 2]
      column_dispatch [of "''2021-01-26''" "{''0.0''}" 3 True "''0.0''" 2]
      column_dispatch [of "''1,234.5''" "{''0.0''}" 3 True "''0.0''" 2]
      column_dispatch [of "''1,234.5''" "{}" 3 False "[]" 2]
      column_dispatch [of "''n/a''" "{}" 3 False "[]" 2]
    by (simp add: py_endswith_def)
qed

text \<open>
  A cell of column 0 whose text passes the date test and is written as plain text:
  there is no month 13.
\<close>

theorem column_dispatch_counterexample:
  "is_date_string ''2021-13-45''
   \<and> write_cell_value {} 1 0 ''2021-13-45'' False [] =
       Inr (Write_string 1 0 ''2021-13-45'' String_format)"
  by (simp add: write_cell_value_def type_simps)

text \<open>
  Claim C6. A cell of column 0 whose text passes the date test is treated as a date
  with time exactly when the text is longer than 10 characters and does not end in
  \<^verbatim>\<open> 00:00:00\<close>: then it is parsed with the date-and-time format and written in the
  date-with-time style, and otherwise its first 10 characters are parsed with the date
  format and written in the date-only style (in both cases the text is written as it
  is when the strict parse refuses it). In particular \<^verbatim>\<open>2021-01-26\<close> and
  \<^verbatim>\<open>2021-01-26 00:00:00\<close> are written as date-only, \<^verbatim>\<open>2021-01-26 19:30:00\<close> as date with
  time, and \<^verbatim>\<open>21-01-26\<close> fails the date test.
\<close>

theorem date_time_classification:
  "(is_date_string val \<longrightarrow>
      write_cell_value cache row 0 val hcf key =
        Inr (if length val > 10 \<and> \<not> py_endswith val '' 00:00:00'' then
               (case strptime_datetime (take 19 (py_replace (CHR '' '') ''T'' val)) of
                  Some dt \<Rightarrow> Write_datetime row 0 dt Datetime_format
                | None \<Rightarrow> Write_string row 0 val String_format)
             else
               (case strptime_date (take 10 val) of
                  Some dt \<Rightarrow> Write_datetime row 0 dt Date_format
                | None \<Rightarrow> Write_string row 0 val String_format)))
   \<and> write_cell_value cache row 0 ''2021-01-26'' hcf key =
       Inr (Write_datetime row 0 (2021, 1, 26, 0, 0, 0) Date_format)
   \<and> write_cell_value cache row 0 ''2021-01-26 00:00:00'' hcf key =
       Inr (Write_datetime row 0 (2021, 1, 26, 0, 0, 0) Date_format)
   \<and> write_cell_value cache row 0 ''2021-01-26 19:30:00'' hcf key =
       Inr (Write_datetime row 0 (2021, 1, 26, 19, 30, 0) Datetime_format)
   \<and> \<not> is_date_string ''21-01-26''"
proof -
  note g = write_cell_value_date_branch
  have d1: "is_date_string ''2021-01-26''"
    by (simp add: type_simps)
  have d2: "is_date_string ''2021-01-26 00:00:00''"
    by (simp add: type_simps)
  have d3: "is_date_string ''2021-01-26 19:30:00''"
    by (simp add: type_simps)
  have e1: "write_cell_value cache row 0 ''2021-01-26'' hcf key =
       Inr (Write_datetime row 0 (2021, 1, 26, 0, 0, 0) Date_format)"
    by (simp add: g [OF d1]) (simp add: type_simps)
  have e2: "write_cell_value cache row 0 ''2021-01-26 00:00:00'' hcf key =
       Inr (Write_datetime row 0 (2021, 1, 26, 0, 0, 0) Date_format)"
    by (simp add: g [OF d2]) (simp add: type_simps)
  have e3: "write_cell_value cache row 0 ''2021-01-26 19:30:00'' hcf key =
       Inr (Write_datetime row 0 (2021, 1, 26, 19, 30, 0) Datetime_format)"
    by (simp add: g [OF d3]) (simp add: type_simps)
  have e4: "\<not> is_date_string ''21-01-26''"
    by (simp add: type_simps)
  show ?thesis
    using g e1 e2 e3 e4 by simp
qed

theorem date_time_classification_witness:
  "is_date_string ''2021-01-26 7:05:09''
   \<and> write_cell_value {} 4 0 ''2021-01-26 7:05:09'' False [] =
       Inr (Write_datetime 4 0 (2021, 1, 26, 7, 5, 9) Datetime_format)
   \<and> is_date_string ''2021-02-29''
   \<and> write_cell_value {} 4 0 ''2021-02-29'' False [] =
       Inr (Write_string 4 0 ''2021-02-29'' String_format)"
proof -
  have d1: "is_date_string ''2021-01-26 7:05:09''"
    by (simp add: type_simps)
  have d2: "is_date_string ''2021-02-29''"
    by (simp add: type_simps)
  show ?thesis
    using d1 d2
      date_time_classification [of "''2021-01-26 7:05:09''" "{}" 4 False "[]"]
      date_time_classification [of "''2021-02-29''" "{}" 4 False "[]"]
    by (simp add: type_simps)
qed

text \<open>
  Claim C9, as amended. The numeric test removes every comma before the
  floating-point parse. A text whose comma-stripped form \<^verbatim>\<open>float()\<close> accepts is
  classified numeric (so are \<^verbatim>\<open>1,2,3\<close>, \<^verbatim>\<open>,,12\<close>, \<^verbatim>\<open>inf\<close>, \<^verbatim>\<open>nan\<close> and \<^verbatim>\<open>1e5\<close>). Its cell
  is written as plain text when it is in column 0 with no covering FORMAT rule. When
  the cell is in a column other than 0 or a FORMAT rule covers it, and the
  comma-stripped text reads as a finite number (as \<^verbatim>\<open>123\<close>, \<^verbatim>\<open>12\<close> and \<^verbatim>\<open>1e5\<close> do), the
  cell is written as a number with that value.
\<close>

theorem comma_stripped_numeric:
  "(py_float (py_replace (CHR '','') [] val) = Some num_value \<longrightarrow>
      is_numeric_string val
      \<and> (col = 0 \<and> \<not> (hcf \<and> key \<in> cache) \<longrightarrow>
           write_cell_value cache row col val hcf key =
             Inr (Write_string row col val String_format))
      \<and> (\<not> float_non_finite num_value \<and> (0 < col \<or> (hcf \<and> key \<in> cache)) \<longrightarrow>
           write_cell_value cache row col val hcf key =
             Inr (Write_number row col num_value
                    (if hcf \<and> key \<in> cache then Cached_format key else Number_format))))
   \<and> py_float (py_replace (CHR '','') [] ''1,2,3'') = Some (Float_of_literal ''123'')
   \<and> py_float (py_replace (CHR '','') [] '',,12'') = Some (Float_of_literal ''12'')
   \<and> py_float (py_replace (CHR '','') [] ''inf'') = Some (Float_of_literal ''inf'')
   \<and> py_float (py_replace (CHR '','') [] ''nan'') = Some (Float_of_literal ''nan'')
   \<and> py_float (py_replace (CHR '','') [] ''1e5'') = Some (Float_of_literal ''1e5'')
   \<and> \<not> float_non_finite (Float_of_literal ''123'')
   \<and> \<not> float_non_finite (Float_of_literal ''12'')
   \<and> \<not> float_non_finite (Float_of_literal ''1e5'')"
proof -
  have g: "is_numeric_string val
      \<and> (col = 0 \<and> \<not> (hcf \<and> key \<in> cache) \<longrightarrow>
           write_cell_value cache row col val hcf key =
             Inr (Write_string row col val String_format))
      \<and> (\<not> float_non_finite num_value \<and> (0 < col \<or> (hcf \<and> key \<in> cache)) \<longrightarrow>
           write_cell_value cache row col val hcf key =
             Inr (Write_number row col num_value
                    (if hcf \<and> key \<in> cache then Cached_format key else Number_format)))"
    if f: "py_float (py_replace (CHR '','') [] val) = Some num_value"
  proof -
    have ne: "val \<noteq> []"
      using f by (auto simp: py_float_def py_strip_def py_rstrip_def py_lstrip_def
                    float_syntax_def floatnumber_ok_def digitpart_def py_lower_def)
    have num: "is_numeric_string val"
      using f ne by (simp add: is_numeric_string_def)
    have nd: "\<not> is_date_string val"
      using num date_string_not_numeric by blast
    show ?thesis
      using f ne num nd by (auto simp add: write_cell_value_def write_number_def)
  qed
  have e: "py_float (py_replace (CHR '','') [] ''1,2,3'') = Some (Float_of_literal ''123'')"
          "py_float (py_replace (CHR '','') [] '',,12'') = Some (Float_of_literal ''12'')"
          "py_float (py_replace (CHR '','') [] ''inf'') = Some (Float_of_literal ''inf'')"
          "py_float (py_replace (CHR '','') [] ''nan'') = Some (Float_of_literal ''nan'')"
          "py_float (py_replace (CHR '','') [] ''1e5'') = Some (Float_of_literal ''1e5'')"
          "\<not> float_non_finite (Float_of_literal ''123'')"
          "\<not> float_non_finite (Float_of_literal ''12'')"
          "\<not> float_non_finite (Float_of_literal ''1e5'')"
    by (simp_all add: type_simps)
  show ?thesis
    using g e by simp
qed

theorem comma_stripped_numeric_witness:
  "py_float (py_replace (CHR '','') [] ''1,2,3'') = Some (Float_of_literal ''123'')
   \<and> \<not> float_non_finite (Float_of_literal ''123'')
   \<and> is_numeric_string ''1,2,3''
   \<and> write_cell_value {} 5 1 ''1,2,3'' False [] =
       Inr (Write_number 5 1 (Float_of_literal ''123'') Number_format)
   \<and> write_cell_value {''0.0''} 5 0 ''1,2,3'' True ''0.0'' =
       Inr (Write_number 5 0 (Float_of_literal ''123'') (Cached_format ''0.0''))
   \<and> write_cell_value {} 5 0 ''1,2,3'' False [] = Inr (Write_string 5 0 ''1,2,3'' String_format)"
proof -
  have f: "py_float (py_replace (CHR '','') [] ''1,2,3'') = Some (Float_of_literal ''123'')"
    by (simp add: type_simps)
  have n: "\<not> float_non_finite (Float_of_literal ''123'')"
    by (simp add: type_simps)
  show ?thesis
    using f n
      comma_stripped_numeric [of "''1,2,3''" "Float_of_literal ''123''" 1 False "[]" "{}" 5]
      comma_stripped_numeric [of "''1,2,3''" "Float_of_literal ''123''" 0 True "''0.0''" "{''0.0''}" 5]
      comma_stripped_numeric [of "''1,2,3''" "Float_of_literal ''123''" 0 False "[]" "{}" 5]
    by simp
qed

text \<open>
  A text whose comma-stripped form is accepted, in column 0 with no covering rule: the
  cell is written as plain text, not as a number.
\<close>

theorem comma_stripped_numeric_counterexample:
  "py_float (py_replace (CHR '','') [] ''1,2,3'') = Some (Float_of_literal ''123'')
   \<and> is_numeric_string ''1,2,3''
   \<and> write_cell_value {} 1 0 ''1,2,3'' False [] = Inr (Write_string 1 0 ''1,2,3'' String_format)"
  by (simp add: write_cell_value_def type_simps)

text \<open>
  What the sources do with a number that is not finite is not part of the two claims
  above: the library's \<^verbatim>\<open>write_number\<close> raises, nothing in \<^verbatim>\<open>_write_cell_value\<close> or
  \<^verbatim>\<open>_write_table_data_to_worksheet\<close> catches the exception, and neither the later
  cells nor the charts of the sheet are reached.
\<close>

lemma non_finite_number_raises:
  "write_cell_value {} 5 1 ''inf'' False [] = Inl TypeError"
  "write_cell_value {} 5 1 ''nan'' False [] = Inl TypeError"
  "write_cell_value {} 5 1 ''1e400'' False [] = Inl TypeError"
  "write_cell_value {''0.0''} 5 0 ''-Infinity'' True ''0.0'' = Inl TypeError"
  by (simp_all add: write_cell_value_def type_simps)

lemma non_finite_number_ends_sheet:
  "write_table_data_to_worksheet True chart_ok
     \<lparr>ini_format_config = Map.empty, ini_chart_config = cc,
      excel_format_cache = {}, current_sheet_name = ''load''\<rparr>
     [[''Name'', ''Value''], [''a'', ''inf''], [''b'', ''2,345'']] = Inl TypeError"
  by (simp add: write_table_data_to_worksheet_def create_format_objects_for_current_sheet_def
        check_cell_has_custom_format_def write_cell_value_def type_simps)

end
